theory Spec2Isabelle
  imports Complex_Main
begin

section \<open>Python and numpy building blocks\<close>

text \<open>
  The script \<^verbatim>\<open>demo_2d_finite_Dirichlet_GMM.py\<close> is embedded shallowly.  Floating-point
  numbers are idealised as \<^typ>\<open>real\<close>; numpy arrays are lists (a 2-D array is a list of
  rows).  An uncaught Python exception is a value of \<open>py_error\<close> on the left of a sum.
\<close>

datatype py_error = IndexError | EOFError | FitError

type_synonym point = "real \<times> real"
type_synonym covar = "(real \<times> real) \<times> (real \<times> real)"
type_synonym grid = "real list list"

definition py_get :: "'a list \<Rightarrow> int \<Rightarrow> py_error + 'a" where
  \<comment> \<open>\<^verbatim>\<open>xs[i]\<close> for an integer \<open>i\<close>; \<^verbatim>\<open>xs[-1]\<close> is the last element.\<close>
  "py_get xs i =
     (if 0 \<le> i \<and> i < int (length xs) then Inr (xs ! nat i)
      else if i < 0 \<and> - int (length xs) \<le> i then Inr (xs ! nat (int (length xs) + i))
      else Inl IndexError)"

fun py_take :: "'a list \<Rightarrow> int list \<Rightarrow> py_error + 'a list" where
  \<comment> \<open>\<^verbatim>\<open>xs[idx]\<close> with an integer index array: one lookup per index.\<close>
  "py_take xs [] = Inr []"
| "py_take xs (i # is) =
     (case py_get xs i of
        Inl e \<Rightarrow> Inl e
      | Inr v \<Rightarrow> (case py_take xs is of Inl e \<Rightarrow> Inl e | Inr vs \<Rightarrow> Inr (v # vs)))"

definition py_slice0 :: "'a list \<Rightarrow> int \<Rightarrow> nat \<Rightarrow> 'a list" where
  \<comment> \<open>\<^verbatim>\<open>xs[0:stop:step]\<close> for a positive step: a negative stop counts from the end, the
      stop is clipped to the length, and the indices \<open>0, step, 2 * step, ...\<close> below it are
      taken.\<close>
  "py_slice0 xs stop step =
     (let n = int (length xs);
          e = (if stop < 0 then max 0 (n + stop) else min stop n)
      in map (\<lambda>k. xs ! (k * step)) [0 ..< (nat e + step - 1) div step])"

definition enumerate_py :: "'a list \<Rightarrow> (nat \<times> 'a) list" where
  "enumerate_py xs = zip [0 ..< length xs] xs"

definition arange :: "real \<Rightarrow> real \<Rightarrow> real \<Rightarrow> real list" where
  \<comment> \<open>\<^verbatim>\<open>np.arange(start, stop, step)\<close>: \<open>ceil((stop - start) / step)\<close> values
      \<open>start + i * step\<close>.\<close>
  "arange start stop step =
     map (\<lambda>i. start + real i * step) [0 ..< nat \<lceil>(stop - start) / step\<rceil>]"

definition meshgrid :: "real list \<Rightarrow> real list \<Rightarrow> grid \<times> grid" where
  \<comment> \<open>\<^verbatim>\<open>np.meshgrid(xs, ys)\<close>: both results have one row per \<open>y\<close> and one column per \<open>x\<close>.\<close>
  "meshgrid xs ys = (replicate (length ys) xs, map (\<lambda>y. replicate (length xs) y) ys)"

definition ravel :: "'a list list \<Rightarrow> 'a list" where
  "ravel a = concat a"

definition np_c :: "real list \<Rightarrow> real list \<Rightarrow> point list" where
  \<comment> \<open>\<^verbatim>\<open>np.c_[a, b]\<close> for two 1-D arrays of the same length: the rows \<open>(a[i], b[i])\<close>.\<close>
  "np_c a b = zip a b"

fun reshape :: "'a list \<Rightarrow> 'b list list \<Rightarrow> 'a list list" where
  \<comment> \<open>\<^verbatim>\<open>zz.reshape(xx.shape)\<close>: the flat values cut, row-major, into the rows of \<open>xx\<close>.\<close>
  "reshape zs [] = []"
| "reshape zs (r # rs) = take (length r) zs # reshape (drop (length r) zs) rs"

section \<open>Parameters of the dataset and of the estimator\<close>

definition random_state :: nat where "random_state = 2"
definition n_components :: nat where "n_components = 6"
definition n_features :: nat where "n_features = 2"

definition colors :: "string list" where
  "colors = [''#0072B2'', ''#F0E442'', ''#D55E00'', ''#EE82EE'', ''#A0522D'', ''#2E8B57'']"

definition covars :: "covar list" where
  "covars = [((1/10, 2/100), (2/100, 15/100)),
             ((3/10, - (1/100)), (- (1/100), 3/10)),
             ((7/10, 4/10), (3/10, 6/10)),
             ((3/10, 3/100), (9/100, 3/10)),
             ((6/10, - (7/100)), (- (5/100), 6/10)),
             ((6/10, 13/100), (12/100, 86/100))]"

definition samples :: "nat list" where
  "samples = [300, 500, 400, 400, 400, 300]"

definition means :: "point list" where
  "means = [(8/10, - 2), (- (25/10), - (5/100)), (- 2, 2), (12/10, 25/10), (2, 7/10), (- 1, - 2)]"

text \<open>
  The keyword arguments of \<^verbatim>\<open>BayesianGaussianMixture(...)\<close>, and the two attributes the
  main loop assigns before fitting.
\<close>

record bgm_params =
  weight_concentration_prior_type :: string
  bgm_n_components :: nat
  reg_covar :: real
  init_params :: string
  max_iter :: nat
  mean_precision_prior :: real
  bgm_random_state :: nat
  tol :: real
  weight_concentration_prior :: "real option"
  warm_start :: bool

definition estimator_params :: bgm_params where
  "estimator_params =
     \<lparr> weight_concentration_prior_type = ''dirichlet_distribution'',
       bgm_n_components = 3 * n_components,
       reg_covar = 0,
       init_params = ''random'',
       max_iter = 5,
       mean_precision_prior = 8/10,
       bgm_random_state = random_state,
       tol = 1 / 10 ^ 5,
       weight_concentration_prior = None,
       warm_start = False \<rparr>"

definition SMALL_PROBS :: real where "SMALL_PROBS = 0"

definition figsize :: "real \<times> real" where
  \<comment> \<open>\<^verbatim>\<open>plt.figure(figsize=(4.7 * 3, 8))\<close>\<close>
  "figsize = (47/10 * 3, 8)"

definition gridspec_shape :: "real list \<Rightarrow> nat \<times> nat" where
  \<comment> \<open>\<^verbatim>\<open>gridspec.GridSpec(3, len(concentrations_prior))\<close>\<close>
  "gridspec_shape concentrations_prior = (3, length concentrations_prior)"

section \<open>Colour list of \<^verbatim>\<open>plot_contours\<close>\<close>

definition extend_colors :: "string list \<Rightarrow> nat \<Rightarrow> string list" where
  \<comment> \<open>Lines 28-31 of the script.  \<open>css\<close> is \<^verbatim>\<open>list(mcd.CSS4_COLORS.values())\<close>, a table of
      matplotlib; \<open>m\<close> is \<^verbatim>\<open>means.shape[0]\<close>.\<close>
  "extend_colors css m =
     (let new_colors = colors
      in if length new_colors < m
         then (let new_clusters = int m - int (length new_colors)
               in new_colors @ py_slice0 css (4 * (new_clusters - 1)) 4)
         else new_colors)"

section \<open>The libraries the script calls\<close>

text \<open>
  numpy's generator, scikit-learn's estimator, scipy's density and matplotlib's colour table
  are not part of the script.  They are parameters of the model: \<open>'g\<close> is the state of a
  \<^verbatim>\<open>RandomState\<close>, \<open>'h\<close> whatever the estimator keeps besides the attributes the script
  reads.  \<^verbatim>\<open>fit\<close> may raise (a numerical failure is fatal for the script).
\<close>

text \<open>
  The attributes \<^verbatim>\<open>weights_\<close>, \<^verbatim>\<open>means_\<close>, \<^verbatim>\<open>covariances_\<close> and \<^verbatim>\<open>converged_\<close> of the
  estimator are the fields \<open>est_weights\<close>, \<open>est_means\<close>, \<open>est_covariances\<close> and
  \<open>est_converged\<close>.
\<close>

record 'h estimator =
  params :: bgm_params
  est_weights :: "real list"
  est_means :: "point list"
  est_covariances :: "covar list"
  est_converged :: bool
  internal :: 'h

record ('g, 'h) lib =
  RandomState :: "nat \<Rightarrow> 'g"
  multivariate_normal :: "'g \<Rightarrow> point \<Rightarrow> covar \<Rightarrow> nat \<Rightarrow> point list \<times> 'g"
  BayesianGaussianMixture :: "bgm_params \<Rightarrow> 'h estimator"
  fit :: "'h estimator \<Rightarrow> point list \<Rightarrow> py_error + 'h estimator"
  score_samples :: "'h estimator \<Rightarrow> point \<Rightarrow> real"
  multivariate_normal_pdf :: "point \<Rightarrow> point \<Rightarrow> covar \<Rightarrow> real"
  CSS4_COLORS_values :: "string list"

section \<open>Data generation (lines 115-121)\<close>

fun draw_blocks :: "('g, 'h) lib \<Rightarrow> 'g \<Rightarrow> nat list \<Rightarrow> point list list" where
  \<comment> \<open>The list comprehension of line 117: one call of \<^verbatim>\<open>rng.multivariate_normal\<close> per
      component, in order, each continuing from the generator state the previous one left.\<close>
  "draw_blocks L g [] = []"
| "draw_blocks L g (j # js) =
     (let (B, g') = multivariate_normal L g (means ! j) (covars ! j) (samples ! j)
      in B # draw_blocks L g' js)"

definition vstack :: "'a list list \<Rightarrow> 'a list" where
  "vstack blocks = concat blocks"

definition ones :: "nat \<Rightarrow> int list" where
  "ones n = replicate n 1"

definition generate_X :: "('g, 'h) lib \<Rightarrow> point list" where
  "generate_X L =
     (let rng = RandomState L random_state
      in vstack (draw_blocks L rng [0 ..< n_components]))"

definition generate_y :: "int list" where
  "generate_y = concat (map (\<lambda>j. map (\<lambda>one. int j * one) (ones (samples ! j))) [0 ..< n_components])"

text \<open>
  The same lines over a library given as relations, which leaves open whether two calls
  with the same arguments give the same result: \<open>seed_rel s g\<close> says that
  \<^verbatim>\<open>RandomState(s)\<close> may return \<open>g\<close>, \<open>mvn_rel g m c n (B, g')\<close> that drawing \<open>n\<close>
  points in state \<open>g\<close> may return \<open>B\<close> and leave state \<open>g'\<close>.
\<close>

inductive may_draw_blocks ::
  "('g \<Rightarrow> point \<Rightarrow> covar \<Rightarrow> nat \<Rightarrow> point list \<times> 'g \<Rightarrow> bool) \<Rightarrow> 'g \<Rightarrow> nat list \<Rightarrow> point list list \<Rightarrow> bool"
  for mvn_rel where
  draw_none: "may_draw_blocks mvn_rel g [] []"
| draw_next:
    "mvn_rel g (means ! j) (covars ! j) (samples ! j) (B, g') \<Longrightarrow>
     may_draw_blocks mvn_rel g' js Bs \<Longrightarrow>
     may_draw_blocks mvn_rel g (j # js) (B # Bs)"

inductive may_generate ::
  "(nat \<Rightarrow> 'g \<Rightarrow> bool) \<Rightarrow> ('g \<Rightarrow> point \<Rightarrow> covar \<Rightarrow> nat \<Rightarrow> point list \<times> 'g \<Rightarrow> bool) \<Rightarrow>
   nat \<Rightarrow> point list \<times> int list \<Rightarrow> bool"
  for seed_rel mvn_rel where
  generate_run:
    "seed_rel seed rng \<Longrightarrow>
     may_draw_blocks mvn_rel rng [0 ..< n_components] Bs \<Longrightarrow>
     may_generate seed_rel mvn_rel seed (vstack Bs, generate_y)"

definition deterministic_lib ::
  "(nat \<Rightarrow> 'g \<Rightarrow> bool) \<Rightarrow> ('g \<Rightarrow> point \<Rightarrow> covar \<Rightarrow> nat \<Rightarrow> point list \<times> 'g \<Rightarrow> bool) \<Rightarrow> bool" where
  \<comment> \<open>The generator state is a function of the seed, and a draw a function of the state and
      the arguments.\<close>
  "deterministic_lib seed_rel mvn_rel \<longleftrightarrow>
     (\<forall>s g1 g2. seed_rel s g1 \<longrightarrow> seed_rel s g2 \<longrightarrow> g1 = g2) \<and>
     (\<forall>g m c n r1 r2. mvn_rel g m c n r1 \<longrightarrow> mvn_rel g m c n r2 \<longrightarrow> r1 = r2)"

definition returns_size :: "('g, 'h) lib \<Rightarrow> bool" where
  \<comment> \<open>numpy's contract for \<^verbatim>\<open>multivariate_normal(mean, cov, size)\<close>: \<open>size\<close> rows.\<close>
  "returns_size L \<longleftrightarrow> (\<forall>g m c n. length (fst (multivariate_normal L g m c n)) = n)"

section \<open>Axes and drawing commands\<close>

datatype draw =
    SetTitle string real
  | Scatter "point list" "string list"
  | SetXticks
  | SetYticks
  | SetYlabel string
  | Contourf grid grid grid
  | Contour grid grid grid string
  | TickParams string
  | YaxisGrid
  | Bar nat real
  | Text nat real real

record axes =
  cmds :: "draw list"
  xlim :: "real \<times> real"
  ylim :: "real \<times> real"

definition new_axes :: axes where
  "new_axes = \<lparr> cmds = [], xlim = (0, 1), ylim = (0, 1) \<rparr>"

definition clear :: "axes \<Rightarrow> axes" where
  "clear ax = new_axes"

definition draw_on :: "axes \<Rightarrow> draw \<Rightarrow> axes" where
  "draw_on ax d = ax\<lparr>cmds := cmds ax @ [d]\<rparr>"

section \<open>Density scorer (lines 19-24)\<close>

definition score_fn_dpgmm :: "('g, 'h) lib \<Rightarrow> point \<Rightarrow> 'h estimator \<Rightarrow> real" where
  "score_fn_dpgmm L x est = score_samples L est x"

definition score_fn_mvn :: "('g, 'h) lib \<Rightarrow> point \<Rightarrow> point \<Rightarrow> covar \<Rightarrow> real" where
  "score_fn_mvn L x mean covar = multivariate_normal_pdf L x mean covar"

section \<open>Renderer (lines 27-83)\<close>

fun contour_loop ::
  "('g, 'h) lib \<Rightarrow> string list \<Rightarrow> point list \<Rightarrow> covar list \<Rightarrow> grid \<Rightarrow> grid \<Rightarrow> axes \<Rightarrow> nat list
   \<Rightarrow> py_error + axes" where
  \<comment> \<open>The \<^verbatim>\<open>for n in range(means.shape[0])\<close> loop of lines 35-38.\<close>
  "contour_loop L new_colors mus sigmas xx yy ax [] = Inr ax"
| "contour_loop L new_colors mus sigmas xx yy ax (n # ns) =
     (case py_get mus (int n) of
        Inl e \<Rightarrow> Inl e
      | Inr mu \<Rightarrow>
     (case py_get sigmas (int n) of
        Inl e \<Rightarrow> Inl e
      | Inr sigma \<Rightarrow>
     (let zz = map (\<lambda>x. score_fn_mvn L x mu sigma) (np_c (ravel xx) (ravel yy));
          zz = reshape zz xx
      in case py_get new_colors (int n - 1) of
           Inl e \<Rightarrow> Inl e
         | Inr color \<Rightarrow>
             contour_loop L new_colors mus sigmas xx yy (draw_on ax (Contour xx yy zz color)) ns)))"

definition plot_contours ::
  "('g, 'h) lib \<Rightarrow> axes \<Rightarrow> 'h estimator \<Rightarrow> real list \<Rightarrow> point list \<Rightarrow> covar list \<Rightarrow> grid \<Rightarrow> grid
   \<Rightarrow> py_error + axes" where
  "plot_contours L ax est weights mus sigmas xx yy =
     (let new_colors = extend_colors (CSS4_COLORS_values L) (length mus);
          zz = map (\<lambda>x. score_fn_dpgmm L x est) (np_c (ravel xx) (ravel yy));
          zz = reshape zz xx;
          ax = draw_on ax (Contourf xx yy zz)
      in contour_loop L new_colors mus sigmas xx yy ax [0 ..< length mus])"

definition bar_loop :: "axes \<Rightarrow> (nat \<times> real) list \<Rightarrow> axes" where
  \<comment> \<open>Lines 49-53: a bar and its label for each enumerated weight.  The label is the number
      \<open>w * 100\<close>, which the script prints with the format \<^verbatim>\<open>%.1f%%\<close>.\<close>
  "bar_loop ax2 kws =
     foldl (\<lambda>ax (k, w). draw_on (draw_on ax (Bar k w)) (Text k (w + 7/1000) (w * 100))) ax2 kws"

definition plot_results ::
  "('g, 'h) lib \<Rightarrow> axes \<Rightarrow> axes \<Rightarrow> 'h estimator \<Rightarrow> grid \<Rightarrow> grid \<Rightarrow> py_error + axes \<times> axes" where
  "plot_results L ax1 ax2 est xx yy =
     (case plot_contours L ax1 est (est_weights est) (est_means est) (est_covariances est) xx yy of
        Inl e \<Rightarrow> Inl e
      | Inr ax1 \<Rightarrow>
          (let ax2 = draw_on ax2 (TickParams ''x direction out'');
               ax2 = draw_on ax2 YaxisGrid;
               weights = filter (\<lambda>w. w > SMALL_PROBS) (est_weights est);
               ax2 = bar_loop ax2 (enumerate_py weights);
               ax2 = ax2\<lparr>xlim := (- (6/10), 3 * real n_components - 4/10)\<rparr>;
               ax2 = ax2\<lparr>ylim := (0, 11/10)\<rparr>;
               ax2 = draw_on ax2 (TickParams ''y both'');
               ax2 = draw_on ax2 (TickParams ''x both'')
           in Inr (ax1, ax2)))"

definition init_plots ::
  "axes \<Rightarrow> axes \<Rightarrow> point list \<Rightarrow> int list \<Rightarrow> string \<Rightarrow> real \<Rightarrow> bool \<Rightarrow> bool
   \<Rightarrow> py_error + axes \<times> axes \<times> grid \<times> grid" where
  \<comment> \<open>The title is passed as the pair the script formats with \<^verbatim>\<open>%s$%.1e$\<close>.  Without
      \<open>generate_mesh\<close> the two grids returned are the empty lists of lines 75-76.\<close>
  "init_plots ax1 ax2 X y title concentration plot_title generate_mesh =
     (let ax1 = draw_on ax1 (SetTitle title concentration)
      in case py_take colors y of
           Inl e \<Rightarrow> Inl e
         | Inr cs \<Rightarrow>
             (let ax1 = draw_on ax1 (Scatter X cs);
                  ax1 = ax1\<lparr>xlim := (- 4, 4)\<rparr>;
                  ax1 = ax1\<lparr>ylim := (- 6, 6)\<rparr>;
                  ax1 = draw_on ax1 SetXticks;
                  ax1 = draw_on ax1 SetYticks;
                  (ax1, ax2) =
                    (if plot_title
                     then (draw_on ax1 (SetYlabel ''Estimated Mixtures''),
                           draw_on ax2 (SetYlabel ''Weight of each component''))
                     else (ax1, ax2));
                  (xx, yy) =
                    (if generate_mesh
                     then (let (x_min, x_max) = xlim ax1;
                               (y_min, y_max) = ylim ax1;
                               h = max ((x_max - x_min) / 50) ((y_max - y_min) / 50)
                           in meshgrid (arange x_min x_max h) (arange y_min y_max h))
                     else ([], []))
              in Inr (ax1, ax2, xx, yy)))"

section \<open>The script (lines 105-110 and 125-157)\<close>

definition estimators :: "('g, 'h) lib \<Rightarrow> (string \<times> 'h estimator \<times> real list) list" where
  "estimators L =
     [(''Variational Inference in Finite mixture with Dirichlet Prior '',
       BayesianGaussianMixture L estimator_params, [1])]"

text \<open>
  What the script does to the outside, in order: the figure and subplot grid it opens, each
  call of \<^verbatim>\<open>init_plots\<close> (with its \<open>generate_mesh\<close> flag), \<^verbatim>\<open>plt.pause\<close>,
  \<^verbatim>\<open>raw_input\<close>, \<^verbatim>\<open>estimator.fit\<close>, \<^verbatim>\<open>ax.clear\<close>, \<^verbatim>\<open>plot_results\<close> (with the mesh it is
  given) and \<^verbatim>\<open>print\<close>.
\<close>

datatype event =
    Figure real real
  | GridSpec nat nat
  | InitPlots bool
  | Pause real
  | RawInput
  | Fit
  | Clear
  | PlotResults grid grid
  | Print bool

record 'h state =
  st_estimator :: "'h estimator"
  st_ax1 :: axes
  st_ax2 :: axes
  st_xx :: grid
  st_yy :: grid
  st_stdin :: "string list"
  st_log :: "event list"

definition raw_input :: "'h state \<Rightarrow> py_error + 'h state" where
  \<comment> \<open>Reads one line of the console and ignores it; a closed input stream raises.\<close>
  "raw_input st =
     (case st_stdin st of
        [] \<Rightarrow> Inl EOFError
      | line # rest \<Rightarrow> Inr (st\<lparr>st_stdin := rest, st_log := st_log st @ [RawInput]\<rparr>))"

definition loop_body ::
  "('g, 'h) lib \<Rightarrow> point list \<Rightarrow> int list \<Rightarrow> string \<Rightarrow> real \<Rightarrow> bool \<Rightarrow> 'h state
   \<Rightarrow> py_error + 'h state" where
  \<comment> \<open>Lines 149-155.  The grids \<^verbatim>\<open>init_plots\<close> returns here are dropped (\<^verbatim>\<open>_, _\<close>).\<close>
  "loop_body L X y title concentration plot_title st =
     (case fit L (st_estimator st) X of
        Inl e \<Rightarrow> Inl e
      | Inr est \<Rightarrow>
     (case init_plots (clear (st_ax1 st)) (clear (st_ax2 st)) X y title concentration
             plot_title False of
        Inl e \<Rightarrow> Inl e
      | Inr (ax1, ax2, _, _) \<Rightarrow>
     (case plot_results L ax1 ax2 est (st_xx st) (st_yy st) of
        Inl e \<Rightarrow> Inl e
      | Inr (ax1, ax2) \<Rightarrow>
          Inr (st\<lparr>st_estimator := est, st_ax1 := ax1, st_ax2 := ax2,
                 st_log := st_log st @
                   [Fit, Clear, Clear, InitPlots False, PlotResults (st_xx st) (st_yy st),
                    Pause (1/1000)]\<rparr>))))"

partial_function (option) fit_loop ::
  "('g, 'h) lib \<Rightarrow> point list \<Rightarrow> int list \<Rightarrow> string \<Rightarrow> real \<Rightarrow> bool \<Rightarrow> 'h state
   \<Rightarrow> (py_error + 'h state) option" where
  \<comment> \<open>\<^verbatim>\<open>while not estimator.converged_\<close>; \<open>None\<close> is a loop that runs forever.\<close>
  "fit_loop L X y title concentration plot_title st =
     (if est_converged (st_estimator st) then Some (Inr st)
      else (case loop_body L X y title concentration plot_title st of
              Inl e \<Rightarrow> Some (Inl e)
            | Inr st' \<Rightarrow> fit_loop L X y title concentration plot_title st'))"

definition first_fit ::
  "('g, 'h) lib \<Rightarrow> point list \<Rightarrow> int list \<Rightarrow> string \<Rightarrow> real \<Rightarrow> bool \<Rightarrow> 'h state
   \<Rightarrow> py_error + 'h state" where
  \<comment> \<open>Lines 140-147: the first fit, the redraw that builds the mesh, and the prompt.\<close>
  "first_fit L X y title concentration plot_title st =
     (case fit L (st_estimator st) X of
        Inl e \<Rightarrow> Inl e
      | Inr est \<Rightarrow>
     (case init_plots (clear (st_ax1 st)) (clear (st_ax2 st)) X y title concentration
             plot_title True of
        Inl e \<Rightarrow> Inl e
      | Inr (ax1, ax2, xx, yy) \<Rightarrow>
     (case plot_results L ax1 ax2 est xx yy of
        Inl e \<Rightarrow> Inl e
      | Inr (ax1, ax2) \<Rightarrow>
          raw_input
            (st\<lparr>st_estimator := est, st_ax1 := ax1, st_ax2 := ax2, st_xx := xx, st_yy := yy,
                st_log := st_log st @
                  [Fit, Clear, Clear, InitPlots True, PlotResults xx yy, Pause (1/1000)]\<rparr>))))"

definition run_configuration ::
  "('g, 'h) lib \<Rightarrow> point list \<Rightarrow> int list \<Rightarrow> string \<Rightarrow> 'h estimator \<Rightarrow> nat \<Rightarrow> real
   \<Rightarrow> string list \<Rightarrow> event list \<Rightarrow> (py_error + 'h state) option" where
  \<comment> \<open>Lines 132-157, the body of \<^verbatim>\<open>for k, concentration in enumerate(concentrations_prior)\<close>,
      started with the console input left and the events so far.\<close>
  "run_configuration L X y title est k concentration inp lg =
     (let est = est\<lparr>params := (params est)\<lparr>weight_concentration_prior := Some concentration\<rparr>\<rparr>;
          est = est\<lparr>params := (params est)\<lparr>warm_start := True\<rparr>\<rparr>
      in case init_plots new_axes new_axes X y title concentration (k = 0) False of
           Inl e \<Rightarrow> Some (Inl e)
         | Inr (ax1, ax2, xx, yy) \<Rightarrow>
        (case raw_input
                \<lparr>st_estimator = est, st_ax1 = ax1, st_ax2 = ax2, st_xx = xx, st_yy = yy,
                 st_stdin = inp, st_log = lg @ [InitPlots False, Pause (1/10)]\<rparr> of
           Inl e \<Rightarrow> Some (Inl e)
         | Inr st \<Rightarrow>
        (case first_fit L X y title concentration (k = 0) st of
           Inl e \<Rightarrow> Some (Inl e)
         | Inr st \<Rightarrow>
        (case fit_loop L X y title concentration (k = 0) st of
           None \<Rightarrow> None
         | Some (Inl e) \<Rightarrow> Some (Inl e)
         | Some (Inr st) \<Rightarrow>
             Some (raw_input
                     (st\<lparr>st_log := st_log st @ [Print (est_converged (st_estimator st))]\<rparr>))))))"

fun for_concentrations ::
  "('g, 'h) lib \<Rightarrow> point list \<Rightarrow> int list \<Rightarrow> string \<Rightarrow> 'h estimator \<Rightarrow> (nat \<times> real) list
   \<Rightarrow> string list \<Rightarrow> event list \<Rightarrow> (py_error + 'h estimator \<times> string list \<times> event list) option"
  where
  "for_concentrations L X y title est [] inp lg = Some (Inr (est, inp, lg))"
| "for_concentrations L X y title est ((k, concentration) # rest) inp lg =
     (case run_configuration L X y title est k concentration inp lg of
        None \<Rightarrow> None
      | Some (Inl e) \<Rightarrow> Some (Inl e)
      | Some (Inr st) \<Rightarrow>
          for_concentrations L X y title (st_estimator st) rest (st_stdin st) (st_log st))"

fun for_estimators ::
  "('g, 'h) lib \<Rightarrow> point list \<Rightarrow> int list \<Rightarrow> (string \<times> 'h estimator \<times> real list) list
   \<Rightarrow> string list \<Rightarrow> event list \<Rightarrow> (py_error + string list \<times> event list) option" where
  "for_estimators L X y [] inp lg = Some (Inr (inp, lg))"
| "for_estimators L X y ((title, est, concentrations_prior) # rest) inp lg =
     (let lg = lg @ [Figure (fst figsize) (snd figsize)];
          gs = gridspec_shape concentrations_prior;
          lg = lg @ [GridSpec (fst gs) (snd gs)]
      in case for_concentrations L X y title est (enumerate_py concentrations_prior) inp lg of
           None \<Rightarrow> None
         | Some (Inl e) \<Rightarrow> Some (Inl e)
         | Some (Inr (_, inp, lg)) \<Rightarrow> for_estimators L X y rest inp lg)"

definition main :: "('g, 'h) lib \<Rightarrow> string list \<Rightarrow> (py_error + string list \<times> event list) option"
  where
  \<comment> \<open>The whole script, run on the lines the console will deliver; the result is the input
      left over and the events in order.\<close>
  "main L inp = for_estimators L (generate_X L) generate_y (estimators L) inp []"

section \<open>Notions used to state the properties\<close>

definition grid_map2 :: "(point \<Rightarrow> 'a) \<Rightarrow> grid \<Rightarrow> grid \<Rightarrow> 'a list list" where
  \<comment> \<open>The value of \<open>f\<close> at every point \<open>(xx[i][j], yy[i][j])\<close> of a mesh, in the shape of the
      mesh.\<close>
  "grid_map2 f xx yy = map (\<lambda>(r, s). map f (zip r s)) (zip xx yy)"

definition same_shape :: "grid \<Rightarrow> grid \<Rightarrow> bool" where
  "same_shape xx yy \<longleftrightarrow> list_all2 (\<lambda>r s. length r = length s) xx yy"

definition contour_cmd ::
  "('g, 'h) lib \<Rightarrow> string list \<Rightarrow> point list \<Rightarrow> covar list \<Rightarrow> grid \<Rightarrow> grid \<Rightarrow> nat \<Rightarrow> draw" where
  \<comment> \<open>The call of \<^verbatim>\<open>ax.contour\<close> for component \<open>n\<close> when every index is in range.\<close>
  "contour_cmd L new_colors mus sigmas xx yy n =
     Contour xx yy
       (reshape (map (\<lambda>x. score_fn_mvn L x (mus ! n) (sigmas ! n)) (np_c (ravel xx) (ravel yy))) xx)
       (new_colors ! (if n = 0 then length new_colors - 1 else n - 1))"

definition the_mesh :: "grid \<times> grid" where
  \<comment> \<open>The grid over the view bounds \<open>[-4, 4] \<times> [-6, 6]\<close> with the step of line 80.\<close>
  "the_mesh =
     (let h = max ((4 - (- 4)) / 50) ((6 - (- 6)) / 50)
      in meshgrid (arange (- 4) 4 h) (arange (- 6) 6 h))"

subsection \<open>Reading the drawing commands and the events\<close>

fun bars :: "draw list \<Rightarrow> (nat \<times> real) list" where
  \<comment> \<open>The bars of a chart: position and height, in drawing order.\<close>
  "bars [] = []"
| "bars (Bar k w # ds) = (k, w) # bars ds"
| "bars (d # ds) = bars ds"

fun bar_labels :: "draw list \<Rightarrow> (nat \<times> real \<times> real) list" where
  \<comment> \<open>The text labels: position, height, and the number printed as a percentage.\<close>
  "bar_labels [] = []"
| "bar_labels (Text k h v # ds) = (k, h, v) # bar_labels ds"
| "bar_labels (d # ds) = bar_labels ds"

definition loop_events :: "grid \<Rightarrow> grid \<Rightarrow> event list" where
  "loop_events xx yy = [Fit, Clear, Clear, InitPlots False, PlotResults xx yy, Pause (1/1000)]"

definition script_log :: "nat \<Rightarrow> event list" where
  \<comment> \<open>The events of a run whose convergence loop makes \<open>k\<close> iterations.\<close>
  "script_log k =
     [Figure (141/10) 8, GridSpec 3 1, InitPlots False, Pause (1/10), RawInput,
      Fit, Clear, Clear, InitPlots True, PlotResults (fst the_mesh) (snd the_mesh),
      Pause (1/1000), RawInput]
     @ concat (replicate k (loop_events (fst the_mesh) (snd the_mesh)))
     @ [Print True, RawInput]"

datatype phase = Init | Fitted | Wait

fun phases :: "event list \<Rightarrow> phase list" where
  \<comment> \<open>The renderer's phases in a sequence of events: a call of \<^verbatim>\<open>init_plots\<close> followed at
      once by \<^verbatim>\<open>plot_results\<close> is one Fitted render, any other call of \<^verbatim>\<open>init_plots\<close> is
      Init, and a console prompt is Wait.\<close>
  "phases [] = []"
| "phases (InitPlots g # PlotResults xx yy # es) = Fitted # phases es"
| "phases (InitPlots g # es) = Init # phases es"
| "phases (RawInput # es) = Wait # phases es"
| "phases (e # es) = phases es"

fun wait_between_fitted :: "phase list \<Rightarrow> bool" where
  \<comment> \<open>No Fitted render follows another without a Wait in between.\<close>
  "wait_between_fitted [] = True"
| "wait_between_fitted (Fitted # Fitted # ps) = False"
| "wait_between_fitted (p # ps) = wait_between_fitted ps"

definition events_of :: "(py_error + string list \<times> event list) option \<Rightarrow> event list" where
  "events_of r = (case r of Some (Inr (inp, lg)) \<Rightarrow> lg | _ \<Rightarrow> [])"

fun loop_fits :: "('g, 'h) lib \<Rightarrow> point list \<Rightarrow> 'h estimator \<Rightarrow> nat \<Rightarrow> bool" where
  \<comment> \<open>Starting from estimator \<open>e\<close>, the convergence loop makes exactly \<open>k\<close> calls of
      \<^verbatim>\<open>fit\<close>, none of which raises, and then finds \<^verbatim>\<open>converged_\<close> true.\<close>
  "loop_fits L X e 0 = est_converged e"
| "loop_fits L X e (Suc k) =
     (\<not> est_converged e \<and> (case fit L e X of Inl err \<Rightarrow> False | Inr e' \<Rightarrow> loop_fits L X e' k))"

definition configured :: "'h estimator \<Rightarrow> real \<Rightarrow> 'h estimator" where
  \<comment> \<open>The estimator after lines 132-133.\<close>
  "configured est concentration =
     est\<lparr>params := (params est)\<lparr>weight_concentration_prior := Some concentration,
                                  warm_start := True\<rparr>\<rparr>"

definition fits_then_converges :: "('g, 'h) lib \<Rightarrow> nat \<Rightarrow> bool" where
  \<comment> \<open>The first \<^verbatim>\<open>fit\<close> of the script succeeds and the loop then makes \<open>k\<close> iterations.\<close>
  "fits_then_converges L k =
     (case fit L (configured (BayesianGaussianMixture L estimator_params) 1) (generate_X L) of
        Inl err \<Rightarrow> False
      | Inr e \<Rightarrow> loop_fits L (generate_X L) e k)"

definition fit_gives_slots :: "('g, 'h) lib \<Rightarrow> bool" where
  \<comment> \<open>scikit-learn's contract: a fitted estimator has a mean and a covariance for each of
      its \<^verbatim>\<open>n_components\<close> slots, here 18.\<close>
  "fit_gives_slots L \<longleftrightarrow>
     (\<forall>e X e'. fit L e X = Inr e' \<longrightarrow>
        length (est_means e') = bgm_n_components estimator_params \<and>
        length (est_covariances e') = bgm_n_components estimator_params)"


definition loop_post :: "('g, 'h) lib \<Rightarrow> point list \<Rightarrow> 'h state \<Rightarrow> py_error + 'h state \<Rightarrow> bool" where
  \<comment> \<open>What holds of a result \<open>r\<close> of the convergence loop started in state \<open>st\<close>.\<close>
  "loop_post L X st r \<longleftrightarrow>
     (\<forall>st'. r = Inr st' \<longrightarrow>
       (\<exists>k. st_log st' = st_log st @ concat (replicate k (loop_events (st_xx st) (st_yy st))) \<and>
          st_xx st' = st_xx st \<and> st_yy st' = st_yy st \<and> st_stdin st' = st_stdin st \<and>
          est_converged (st_estimator st') \<and> loop_fits L X (st_estimator st) k))"

subsection \<open>A stand-in library for concrete runs\<close>

text \<open>
  A generator that returns the mean \<open>size\<close> times, an estimator with 18 slots that reports
  convergence at its third \<^verbatim>\<open>fit\<close>, constant densities, and a colour table of the size of
  matplotlib's (148 entries).
\<close>

definition demo_fit :: "nat estimator \<Rightarrow> point list \<Rightarrow> py_error + nat estimator" where
  "demo_fit e X =
     Inr (e\<lparr>est_weights := [1/2, 1/4, 1/4] @ replicate 15 0,
            est_means := replicate 18 (0, 0),
            est_covariances := replicate 18 ((1, 0), (0, 1)),
            est_converged := (2 \<le> internal e),
            internal := Suc (internal e)\<rparr>)"

definition demo_lib :: "(nat, nat) lib" where
  "demo_lib =
     \<lparr> RandomState = (\<lambda>seed. seed),
       multivariate_normal = (\<lambda>g mean cov size. (replicate size mean, g + size)),
       BayesianGaussianMixture =
         (\<lambda>p. \<lparr>params = p, est_weights = [], est_means = [], est_covariances = [],
               est_converged = False, internal = 0\<rparr>),
       fit = demo_fit,
       score_samples = (\<lambda>e x. 0),
       multivariate_normal_pdf = (\<lambda>x mean cov. 0),
       CSS4_COLORS_values = replicate 148 ''#F0F8FF'' \<rparr>"

definition demo_state :: "nat state" where
  "demo_state =
     \<lparr>st_estimator = BayesianGaussianMixture demo_lib estimator_params,
      st_ax1 = new_axes, st_ax2 = new_axes, st_xx = [[0, 1]], st_yy = [[5, 5]],
      st_stdin = [], st_log = []\<rparr>"

section \<open>Basic facts\<close>

lemma length_py_slice0:
  "length (py_slice0 xs stop step) =
     (nat (if stop < 0 then max 0 (int (length xs) + stop) else min stop (int (length xs)))
        + step - 1) div step"
  by (simp add: py_slice0_def Let_def)

lemma length_colors: "length colors = 6"
  by (simp add: colors_def)

lemma length_extend_colors:
  "length (extend_colors css m) =
     (if 6 < m then 6 + (min (4 * (m - 7)) (length css) + 3) div 4 else 6)"
proof (cases "6 < m")
  case True
  then have "nat (min (4 * (int m - 6 - 1)) (int (length css))) = min (4 * (m - 7)) (length css)"
    by (simp add: min_def nat_mult_distrib) linarith
  with True show ?thesis
    by (simp add: extend_colors_def Let_def length_colors length_py_slice0 add.commute)
next
  case False
  then show ?thesis
    by (simp add: extend_colors_def Let_def length_colors)
qed

lemma length_extend_colors_18: "41 \<le> length css \<Longrightarrow> length (extend_colors css 18) = 17"
  by (simp add: length_extend_colors)

lemma reshape_ravel:
  "list_all2 (\<lambda>r s. length r = length s) xx yy \<Longrightarrow>
   reshape (map f (np_c (ravel xx) (ravel yy))) xx = grid_map2 f xx yy"
  unfolding np_c_def ravel_def grid_map2_def
  by (induction xx yy rule: list_all2_induct) simp_all

lemma py_get_nat: "n < length xs \<Longrightarrow> py_get xs (int n) = Inr (xs ! n)"
  by (simp add: py_get_def)

lemma py_get_pred:
  "n \<le> length xs \<Longrightarrow> 0 < length xs \<Longrightarrow>
   py_get xs (int n - 1) = Inr (xs ! (if n = 0 then length xs - 1 else n - 1))"
  by (cases xs) (auto simp: py_get_def nat_diff_distrib')

lemma contour_loop_ok:
  "\<forall>n \<in> set ns. n < length mus \<and> n < length sigmas \<and> n \<le> length new_colors \<Longrightarrow>
   0 < length new_colors \<or> ns = [] \<Longrightarrow>
   contour_loop L new_colors mus sigmas xx yy ax ns =
     Inr (ax\<lparr>cmds := cmds ax @ map (contour_cmd L new_colors mus sigmas xx yy) ns\<rparr>)"
proof (induction ns arbitrary: ax)
  case Nil
  then show ?case by simp
next
  case (Cons n ns)
  then have n: "n < length mus" "n < length sigmas" "n \<le> length new_colors" "0 < length new_colors"
    by auto
  have rest: "\<forall>n \<in> set ns. n < length mus \<and> n < length sigmas \<and> n \<le> length new_colors"
    using Cons.prems(1) by simp
  show ?case
    using Cons.IH [OF rest, of "draw_on ax (contour_cmd L new_colors mus sigmas xx yy n)"] n
    by (simp add: py_get_nat py_get_pred Let_def contour_cmd_def draw_on_def)
qed

lemma extend_colors_pos: "0 < length (extend_colors css m)"
  by (simp add: length_extend_colors)

lemma colors_suffice:
  "m \<le> 7 \<or> 4 * (m - 8) + 1 \<le> length css \<Longrightarrow> m \<le> length (extend_colors css m) + 1"
  by (auto simp: length_extend_colors min_def)

lemma plot_contours_ok:
  assumes "length mus \<le> length sigmas"
    and "length mus \<le> 7 \<or> 4 * (length mus - 8) + 1 \<le> length (CSS4_COLORS_values L)"
  shows "plot_contours L ax est w mus sigmas xx yy =
     Inr (ax\<lparr>cmds := cmds ax @
            Contourf xx yy
              (reshape (map (\<lambda>x. score_fn_dpgmm L x est) (np_c (ravel xx) (ravel yy))) xx) #
            map (contour_cmd L (extend_colors (CSS4_COLORS_values L) (length mus)) mus sigmas xx yy)
              [0 ..< length mus]\<rparr>)"
proof -
  let ?nc = "extend_colors (CSS4_COLORS_values L) (length mus)"
  have "\<forall>n \<in> set [0 ..< length mus]. n < length mus \<and> n < length sigmas \<and> n \<le> length ?nc"
    using assms(1) colors_suffice [OF assms(2)] by auto
  moreover have "0 < length ?nc \<or> [0 ..< length mus] = []"
    by (simp add: extend_colors_pos del: length_greater_0_conv)
  ultimately show ?thesis
    unfolding plot_contours_def Let_def
    by (simp only: contour_loop_ok) (simp add: draw_on_def)
qed

lemma set_generate_y: "set generate_y \<subseteq> {0 ..< 6}"
  by (auto simp: generate_y_def n_components_def samples_def ones_def upt_rec [of 0] upt_rec [of 1]
      upt_rec [of 2] upt_rec [of 3] upt_rec [of 4] upt_rec [of 5])

lemma py_take_ok:
  "\<forall>i \<in> set idx. 0 \<le> i \<and> i < int (length xs) \<Longrightarrow>
   py_take xs idx = Inr (map (\<lambda>i. xs ! nat i) idx)"
  by (induction idx) (simp_all add: py_get_def)

lemma py_take_colors_y: "py_take colors generate_y = Inr (map (\<lambda>i. colors ! nat i) generate_y)"
  using set_generate_y by (intro py_take_ok) (auto simp: length_colors)

section \<open>The run of the script\<close>

lemma the_mesh_eq:
  "the_mesh = meshgrid (arange (- 4) 4 (6/25)) (arange (- 6) 6 (6/25))"
  by (simp add: the_mesh_def Let_def)

lemma init_plots_Inr:
  assumes "init_plots ax1 ax2 X y title c pt g = Inr (ax1', ax2', xx, yy)"
  shows "xx = (if g then fst the_mesh else [])"
    and "yy = (if g then snd the_mesh else [])"
    and "cmds ax2' = cmds ax2 @ (if pt then [SetYlabel ''Weight of each component''] else [])"
  using assms
  by (auto simp: init_plots_def Let_def draw_on_def the_mesh_def split: sum.splits if_splits)

lemma init_plots_ok:
  "\<exists>ax1' ax2'. init_plots ax1 ax2 X generate_y title c pt g =
     Inr (ax1', ax2', if g then the_mesh else ([], []))"
  by (auto simp: init_plots_def Let_def draw_on_def the_mesh_def py_take_colors_y split: prod.splits)

lemma raw_input_Inr:
  "raw_input st = Inr st' \<Longrightarrow>
   st_stdin st \<noteq> [] \<and> st' = st\<lparr>st_stdin := tl (st_stdin st), st_log := st_log st @ [RawInput]\<rparr>"
  by (auto simp: raw_input_def split: list.splits)

lemma raw_input_ok:
  "st_stdin st \<noteq> [] \<Longrightarrow>
   raw_input st = Inr (st\<lparr>st_stdin := tl (st_stdin st), st_log := st_log st @ [RawInput]\<rparr>)"
  by (auto simp: raw_input_def split: list.splits)

lemma plot_results_ok:
  assumes "length (est_means est) \<le> length (est_covariances est)"
    and "length (est_means est) \<le> 7 \<or>
         4 * (length (est_means est) - 8) + 1 \<le> length (CSS4_COLORS_values L)"
  shows "\<exists>ax1' ax2'. plot_results L ax1 ax2 est xx yy = Inr (ax1', ax2')"
  by (simp add: plot_results_def plot_contours_ok [OF assms] Let_def)

lemma loop_body_Inr:
  assumes "loop_body L X y title c pt st = Inr st'"
  shows "st_log st' = st_log st @ loop_events (st_xx st) (st_yy st)"
    and "st_xx st' = st_xx st" and "st_yy st' = st_yy st" and "st_stdin st' = st_stdin st"
    and "fit L (st_estimator st) X = Inr (st_estimator st')"
  using assms
  by (auto simp: loop_body_def loop_events_def split: sum.splits prod.splits)

lemma first_fit_Inr:
  assumes "first_fit L X y title c pt st = Inr st'"
  shows "st_log st' = st_log st @
           [Fit, Clear, Clear, InitPlots True, PlotResults (fst the_mesh) (snd the_mesh),
            Pause (1/1000), RawInput] \<and>
     st_xx st' = fst the_mesh \<and> st_yy st' = snd the_mesh \<and>
     st_stdin st \<noteq> [] \<and> st_stdin st' = tl (st_stdin st) \<and>
     fit L (st_estimator st) X = Inr (st_estimator st')"
proof -
  from assms obtain est a1 a2 xx yy a1' a2' where
    f: "fit L (st_estimator st) X = Inr est" and
    ip: "init_plots (clear (st_ax1 st)) (clear (st_ax2 st)) X y title c pt True
           = Inr (a1, a2, xx, yy)" and
    ri: "raw_input
          (st\<lparr>st_estimator := est, st_ax1 := a1', st_ax2 := a2', st_xx := xx, st_yy := yy,
              st_log := st_log st @
                [Fit, Clear, Clear, InitPlots True, PlotResults xx yy, Pause (1/1000)]\<rparr>) = Inr st'"
    by (auto simp: first_fit_def split: sum.splits prod.splits)
  from init_plots_Inr(1,2) [OF ip] have m: "xx = fst the_mesh" "yy = snd the_mesh"
    by simp_all
  from raw_input_Inr [OF ri] f m show ?thesis
    by simp
qed

lemma loop_post_step:
  assumes b: "loop_body L X y title c pt st = Inr st1"
    and n: "\<not> est_converged (st_estimator st)"
    and p: "loop_post L X st1 r"
  shows "loop_post L X st r"
  unfolding loop_post_def
proof (intro allI impI)
  fix st' assume "r = Inr st'"
  with p obtain k where
    k: "st_log st' = st_log st1 @ concat (replicate k (loop_events (st_xx st1) (st_yy st1)))"
       "st_xx st' = st_xx st1" "st_yy st' = st_yy st1" "st_stdin st' = st_stdin st1"
       "est_converged (st_estimator st')" "loop_fits L X (st_estimator st1) k"
    unfolding loop_post_def by blast
  from loop_body_Inr [OF b] k n
  show "\<exists>k. st_log st' = st_log st @ concat (replicate k (loop_events (st_xx st) (st_yy st))) \<and>
          st_xx st' = st_xx st \<and> st_yy st' = st_yy st \<and> st_stdin st' = st_stdin st \<and>
          est_converged (st_estimator st') \<and> loop_fits L X (st_estimator st) k"
    by (intro exI [of _ "Suc k"]) simp
qed

lemma loop_post_done: "est_converged (st_estimator st) \<Longrightarrow> loop_post L X st (Inr st)"
  unfolding loop_post_def by (intro allI impI exI [of _ 0]) simp

lemma loop_post_error: "loop_post L X st (Inl e)"
  unfolding loop_post_def by simp

lemma fit_loop_Some:
  assumes "fit_loop L X y title c pt st = Some r"
  shows "loop_post L X st r"
  using assms
proof (rule fit_loop.raw_induct [where P = "\<lambda>L X y title c pt st r. loop_post L X st r", rotated])
  fix loop L X y title c pt st r
  assume IH: "\<And>L X y title c pt st r. loop L X y title c pt st = Some r \<Longrightarrow> loop_post L X st r"
    and body: "(if est_converged (st_estimator st) then Some (Inr st)
      else case loop_body L X y title c pt st of
           Inl e \<Rightarrow> Some (Inl e)
           | Inr st' \<Rightarrow> loop L X y title c pt st') = Some r"
  show "loop_post L X st r"
  proof (cases "est_converged (st_estimator st)")
    case True
    with body show ?thesis by (auto intro: loop_post_done)
  next
    case False
    show ?thesis
    proof (cases "loop_body L X y title c pt st")
      case (Inl e)
      with body False show ?thesis by (auto intro: loop_post_error)
    next
      case (Inr st1)
      with body False have "loop L X y title c pt st1 = Some r" by simp
      from loop_post_step [OF Inr False IH [OF this]] show ?thesis .
    qed
  qed
qed

lemma fit_loop_ok:
  assumes slots: "fit_gives_slots L" and css: "41 \<le> length (CSS4_COLORS_values L)"
  shows "loop_fits L X (st_estimator st) k \<Longrightarrow>
    \<exists>st'. fit_loop L X generate_y title c pt st = Some (Inr st') \<and>
      st_log st' = st_log st @ concat (replicate k (loop_events (st_xx st) (st_yy st))) \<and>
      st_stdin st' = st_stdin st \<and> est_converged (st_estimator st')"
proof (induction k arbitrary: st)
  case 0
  then show ?case by (subst fit_loop.simps) simp
next
  case (Suc k)
  then obtain e where n: "\<not> est_converged (st_estimator st)"
    and f: "fit L (st_estimator st) X = Inr e" and l: "loop_fits L X e k"
    by (auto split: sum.splits)
  from slots f have len: "length (est_means e) = 18" "length (est_covariances e) = 18"
    by (auto simp: fit_gives_slots_def estimator_params_def n_components_def)
  obtain a1 a2 where ip: "init_plots (clear (st_ax1 st)) (clear (st_ax2 st)) X generate_y title c pt False
      = Inr (a1, a2, [], [])"
    using init_plots_ok [of "clear (st_ax1 st)" "clear (st_ax2 st)" X title c pt False] by auto
  obtain a1' a2' where pr: "plot_results L a1 a2 e (st_xx st) (st_yy st) = Inr (a1', a2')"
    using plot_results_ok [of e L a1 a2 "st_xx st" "st_yy st"] len css by auto
  let ?st1 = "st\<lparr>st_estimator := e, st_ax1 := a1', st_ax2 := a2',
                 st_log := st_log st @ loop_events (st_xx st) (st_yy st)\<rparr>"
  have b: "loop_body L X generate_y title c pt st = Inr ?st1"
    by (simp add: loop_body_def f ip pr loop_events_def)
  from l have "loop_fits L X (st_estimator ?st1) k" by simp
  from Suc.IH [OF this] obtain st' where
    "fit_loop L X generate_y title c pt ?st1 = Some (Inr st')"
    "st_log st' = st_log ?st1 @ concat (replicate k (loop_events (st_xx ?st1) (st_yy ?st1)))"
    "st_stdin st' = st_stdin ?st1" "est_converged (st_estimator st')"
    by blast
  with n b show ?case
    by (subst fit_loop.simps) simp
qed

lemma main_unfold:
  "main L inp =
     (case run_configuration L (generate_X L) generate_y
             ''Variational Inference in Finite mixture with Dirichlet Prior ''
             (BayesianGaussianMixture L estimator_params) 0 1 inp
             [Figure (141/10) 8, GridSpec 3 1] of
        None \<Rightarrow> None
      | Some (Inl e) \<Rightarrow> Some (Inl e)
      | Some (Inr st) \<Rightarrow> Some (Inr (st_stdin st, st_log st)))"
  by (simp add: main_def estimators_def enumerate_py_def figsize_def gridspec_shape_def Let_def
      split: option.splits sum.splits)

lemma loop_fits_unique: "loop_fits L X e k \<Longrightarrow> loop_fits L X e k' \<Longrightarrow> k = k'"
proof (induction k arbitrary: e k')
  case 0
  then show ?case by (cases k') simp_all
next
  case (Suc k)
  then show ?case by (cases k') (auto split: sum.splits)
qed

lemma run_configuration_Some:
  assumes "run_configuration L X y title est k0 c inp lg = Some (Inr st)"
  shows "\<exists>k. st_log st =
        lg @ [InitPlots False, Pause (1/10), RawInput, Fit, Clear, Clear, InitPlots True,
              PlotResults (fst the_mesh) (snd the_mesh), Pause (1/1000), RawInput]
           @ concat (replicate k (loop_events (fst the_mesh) (snd the_mesh)))
           @ [Print True, RawInput] \<and>
      3 \<le> length inp \<and> st_stdin st = drop 3 inp \<and>
      (case fit L (configured est c) X of Inl err \<Rightarrow> False | Inr e \<Rightarrow> loop_fits L X e k)"
proof -
  let ?est = "configured est c"
  from assms obtain a1 a2 xx yy st1 st2 st3 where
    r1: "raw_input \<lparr>st_estimator = ?est, st_ax1 = a1, st_ax2 = a2, st_xx = xx, st_yy = yy,
                    st_stdin = inp, st_log = lg @ [InitPlots False, Pause (1/10)]\<rparr> = Inr st1" and
    ff: "first_fit L X y title c (k0 = 0) st1 = Inr st2" and
    fl: "fit_loop L X y title c (k0 = 0) st2 = Some (Inr st3)" and
    r2: "raw_input (st3\<lparr>st_log := st_log st3 @ [Print (est_converged (st_estimator st3))]\<rparr>)
           = Inr st"
    by (auto simp: run_configuration_def configured_def Let_def
        split: sum.splits prod.splits option.splits)
  note s1 = raw_input_Inr [OF r1]
  note s2 = first_fit_Inr [OF ff]
  from fit_loop_Some [OF fl] obtain k where
    k: "st_log st3 = st_log st2 @ concat (replicate k (loop_events (st_xx st2) (st_yy st2)))"
       "st_stdin st3 = st_stdin st2" "est_converged (st_estimator st3)"
       "loop_fits L X (st_estimator st2) k"
    unfolding loop_post_def by blast
  note s3 = raw_input_Inr [OF r2]
  from s1 s2 k s3 have inp: "3 \<le> length inp \<and> st_stdin st = drop 3 inp"
    by (cases inp; cases "tl inp"; cases "tl (tl inp)") (auto simp: drop_Suc)
  from s1 s2 k s3 have lg: "st_log st =
        lg @ [InitPlots False, Pause (1/10), RawInput, Fit, Clear, Clear, InitPlots True,
              PlotResults (fst the_mesh) (snd the_mesh), Pause (1/1000), RawInput]
           @ concat (replicate k (loop_events (fst the_mesh) (snd the_mesh)))
           @ [Print True, RawInput]"
    by simp
  from s1 s2 k have "case fit L ?est X of Inl err \<Rightarrow> False | Inr e \<Rightarrow> loop_fits L X e k"
    by simp
  with inp lg show ?thesis by blast
qed

lemma main_Some:
  assumes "main L inp = Some (Inr (inp', lg))"
  shows "\<exists>k. lg = script_log k \<and> 3 \<le> length inp \<and> inp' = drop 3 inp \<and> fits_then_converges L k"
proof -
  from assms obtain st where
    r: "run_configuration L (generate_X L) generate_y
             ''Variational Inference in Finite mixture with Dirichlet Prior ''
             (BayesianGaussianMixture L estimator_params) 0 1 inp
             [Figure (141/10) 8, GridSpec 3 1] = Some (Inr st)"
    and o: "inp' = st_stdin st" "lg = st_log st"
    by (auto simp: main_unfold split: option.splits sum.splits)
  from run_configuration_Some [OF r] o show ?thesis
    by (auto simp: script_log_def fits_then_converges_def)
qed

lemma first_fit_ok:
  assumes slots: "fit_gives_slots L" and css: "41 \<le> length (CSS4_COLORS_values L)"
    and f: "fit L (st_estimator st) X = Inr e" and i: "st_stdin st \<noteq> []"
  shows "\<exists>st'. first_fit L X generate_y title c pt st = Inr st'"
proof -
  from slots f have len: "length (est_means e) = 18" "length (est_covariances e) = 18"
    by (auto simp: fit_gives_slots_def estimator_params_def n_components_def)
  obtain mx my where m: "the_mesh = (mx, my)"
    by (cases the_mesh)
  obtain a1 a2 where ip: "init_plots (clear (st_ax1 st)) (clear (st_ax2 st)) X generate_y title c pt True
      = Inr (a1, a2, mx, my)"
    using init_plots_ok [of "clear (st_ax1 st)" "clear (st_ax2 st)" X title c pt True] m by auto
  obtain a1' a2' where pr: "plot_results L a1 a2 e mx my = Inr (a1', a2')"
    using plot_results_ok [of e L a1 a2 mx my] len css by auto
  show ?thesis
    by (simp add: first_fit_def f ip pr raw_input_ok i)
qed

lemma run_configuration_ok:
  assumes slots: "fit_gives_slots L" and css: "41 \<le> length (CSS4_COLORS_values L)"
    and i: "3 \<le> length inp"
    and f: "fit L (configured est c) X = Inr e" and l: "loop_fits L X e k"
  shows "\<exists>st. run_configuration L X generate_y title est k0 c inp lg = Some (Inr st)"
proof -
  let ?est = "configured est c"
  obtain a1 a2 where ip: "init_plots new_axes new_axes X generate_y title c (k0 = 0) False
      = Inr (a1, a2, [], [])"
    using init_plots_ok [of new_axes new_axes X title c "k0 = 0" False] by auto
  let ?st0 = "\<lparr>st_estimator = ?est, st_ax1 = a1, st_ax2 = a2, st_xx = [], st_yy = [],
                    st_stdin = inp, st_log = lg @ [InitPlots False, Pause (1/10)]\<rparr>"
  let ?st1 = "?st0\<lparr>st_stdin := tl inp, st_log := st_log ?st0 @ [RawInput]\<rparr>"
  from i have i0: "st_stdin ?st0 \<noteq> []" by auto
  have r1: "raw_input ?st0 = Inr ?st1"
    using raw_input_ok [OF i0] by simp
  from i have i1: "st_stdin ?st1 \<noteq> []" by (cases inp) auto
  from f have f1: "fit L (st_estimator ?st1) X = Inr e" by simp
  from first_fit_ok [OF slots css f1 i1] obtain st2 where
    ff: "first_fit L X generate_y title c (k0 = 0) ?st1 = Inr st2" by blast
  from first_fit_Inr [OF ff] f have s2: "st_estimator st2 = e" "st_stdin st2 = tl (tl inp)"
    by simp_all
  from l s2 have "loop_fits L X (st_estimator st2) k" by simp
  from fit_loop_ok [OF slots css this] obtain st3 where
    fl: "fit_loop L X generate_y title c (k0 = 0) st2 = Some (Inr st3)"
    and s3: "st_stdin st3 = st_stdin st2"
    by blast
  from i s2 s3 have i3: "st_stdin (st3\<lparr>st_log := st_log st3 @ [Print (est_converged (st_estimator st3))]\<rparr>) \<noteq> []"
    by (cases inp; cases "tl inp"; cases "tl (tl inp)") auto
  show ?thesis
    using ip r1 ff fl raw_input_ok [OF i3]
    by (simp add: run_configuration_def configured_def Let_def)
qed

lemma main_ok:
  assumes slots: "fit_gives_slots L" and css: "41 \<le> length (CSS4_COLORS_values L)"
    and i: "3 \<le> length inp" and k: "fits_then_converges L k"
  shows "main L inp = Some (Inr (drop 3 inp, script_log k))"
proof -
  from k obtain e where
    f: "fit L (configured (BayesianGaussianMixture L estimator_params) 1) (generate_X L) = Inr e"
    and l: "loop_fits L (generate_X L) e k"
    by (auto simp: fits_then_converges_def split: sum.splits)
  from run_configuration_ok [OF slots css i f l] obtain st where
    "run_configuration L (generate_X L) generate_y
             ''Variational Inference in Finite mixture with Dirichlet Prior ''
             (BayesianGaussianMixture L estimator_params) 0 1 inp
             [Figure (141/10) 8, GridSpec 3 1] = Some (Inr st)"
    by blast
  then have m: "main L inp = Some (Inr (st_stdin st, st_log st))"
    by (simp add: main_unfold)
  from main_Some [OF m] obtain k' where
    k': "st_log st = script_log k'" "st_stdin st = drop 3 inp" "fits_then_converges L k'"
    by blast
  from k k'(3) have "k' = k"
    by (auto simp: fits_then_converges_def split: sum.splits dest: loop_fits_unique)
  with m k' show ?thesis by simp
qed

lemma demo_slots: "fit_gives_slots demo_lib"
  by (auto simp: fit_gives_slots_def demo_lib_def demo_fit_def estimator_params_def n_components_def)

lemma demo_css: "41 \<le> length (CSS4_COLORS_values demo_lib)"
  by (simp add: demo_lib_def)

lemma demo_fits: "fits_then_converges demo_lib 2"
  by (simp add: fits_then_converges_def demo_lib_def demo_fit_def configured_def numeral_2_eq_2)

lemma demo_main: "main demo_lib [''a'', ''b'', ''c''] = Some (Inr ([], script_log 2))"
  using main_ok [OF demo_slots demo_css _ demo_fits, of "[''a'', ''b'', ''c'']"] by simp

lemma phases_loop:
  "phases (concat (replicate k (loop_events xx yy)) @ es) = replicate k Fitted @ phases es"
  by (induction k) (simp_all add: loop_events_def)

lemma phases_script_log:
  "phases (script_log k) = [Init, Wait, Fitted, Wait] @ replicate k Fitted @ [Wait]"
  by (simp add: script_log_def phases_loop)






lemma last_script_log: "last (script_log k) = RawInput" "Print True \<in> set (script_log k)"
  by (simp_all add: script_log_def)

lemma cmds_bar_loop:
  "cmds (bar_loop ax kws) =
     cmds ax @ concat (map (\<lambda>(k, w). [Bar k w, Text k (w + 7/1000) (w * 100)]) kws)"
  unfolding bar_loop_def
  by (induction kws arbitrary: ax) (auto simp: draw_on_def)

lemma lims_bar_loop: "xlim (bar_loop ax kws) = xlim ax \<and> ylim (bar_loop ax kws) = ylim ax"
  unfolding bar_loop_def
  by (induction kws arbitrary: ax) (auto simp: draw_on_def)

lemma bars_append: "bars (ds @ ds') = bars ds @ bars ds'"
  by (induction ds rule: bars.induct) simp_all

lemma bar_labels_append: "bar_labels (ds @ ds') = bar_labels ds @ bar_labels ds'"
  by (induction ds rule: bar_labels.induct) simp_all

lemma bars_bar_cmds:
  "bars (concat (map (\<lambda>(k, w). [Bar k w, Text k (w + 7/1000) (w * 100)]) kws)) = kws"
  by (induction kws) auto

lemma bar_labels_bar_cmds:
  "bar_labels (concat (map (\<lambda>(k, w). [Bar k w, Text k (w + 7/1000) (w * 100)]) kws)) =
     map (\<lambda>(k, w). (k, w + 7/1000, w * 100)) kws"
  by (induction kws) auto

lemma plot_results_Inr:
  assumes "plot_results L ax1 ax2 est xx yy = Inr (ax1', ax2')"
  shows "plot_contours L ax1 est (est_weights est) (est_means est) (est_covariances est) xx yy
           = Inr ax1' \<and>
     bars (cmds ax2') =
       bars (cmds ax2) @ enumerate_py (filter (\<lambda>w. SMALL_PROBS < w) (est_weights est)) \<and>
     bar_labels (cmds ax2') =
       bar_labels (cmds ax2) @
       map (\<lambda>(k, w). (k, w + 7/1000, w * 100))
         (enumerate_py (filter (\<lambda>w. SMALL_PROBS < w) (est_weights est))) \<and>
     ylim ax2' = (0, 11/10)"
  using assms
  by (auto simp: plot_results_def Let_def draw_on_def cmds_bar_loop bars_append bar_labels_append
      bars_bar_cmds bar_labels_bar_cmds split: sum.splits)

lemma init_plots_chart_empty:
  assumes "init_plots (clear a1) (clear a2) X y title c pt g = Inr (ax1, ax2, xx, yy)"
  shows "bars (cmds ax2) = [] \<and> bar_labels (cmds ax2) = []"
  using init_plots_Inr(3) [OF assms] by (simp add: clear_def new_axes_def)

lemma loop_body_ok:
  assumes slots: "fit_gives_slots L" and css: "41 \<le> length (CSS4_COLORS_values L)"
    and f: "fit L (st_estimator st) X = Inr e"
  shows "\<exists>st'. loop_body L X generate_y title c pt st = Inr st'"
proof -
  from slots f have len: "length (est_means e) = 18" "length (est_covariances e) = 18"
    by (auto simp: fit_gives_slots_def estimator_params_def n_components_def)
  obtain a1 a2 where ip: "init_plots (clear (st_ax1 st)) (clear (st_ax2 st)) X generate_y title c pt False
      = Inr (a1, a2, [], [])"
    using init_plots_ok [of "clear (st_ax1 st)" "clear (st_ax2 st)" X title c pt False] by auto
  obtain a1' a2' where pr: "plot_results L a1 a2 e (st_xx st) (st_yy st) = Inr (a1', a2')"
    using plot_results_ok [of e L a1 a2 "st_xx st" "st_yy st"] len css by auto
  show ?thesis
    by (simp add: loop_body_def f ip pr)
qed

lemma py_get_nat_Inr: "py_get xs (int n) = Inr v \<Longrightarrow> n < length xs \<and> v = xs ! n"
  by (auto simp: py_get_def split: if_splits)

lemma py_get_pred_Inr:
  "py_get xs (int n - 1) = Inr v \<Longrightarrow> n \<le> length xs \<and> 0 < length xs"
  by (cases xs) (auto simp: py_get_def split: if_splits)

lemma contour_loop_Inr:
  "contour_loop L new_colors mus sigmas xx yy ax ns = Inr ax' \<Longrightarrow>
   ax' = ax\<lparr>cmds := cmds ax @ map (contour_cmd L new_colors mus sigmas xx yy) ns\<rparr>"
proof (induction ns arbitrary: ax)
  case Nil
  then show ?case by simp
next
  case (Cons n ns)
  from Cons.prems obtain mu sigma color where
    g: "py_get mus (int n) = Inr mu" "py_get sigmas (int n) = Inr sigma"
       "py_get new_colors (int n - 1) = Inr color"
    by (auto simp: Let_def split: sum.splits)
  from g have c: "n < length mus" "n < length sigmas" "n \<le> length new_colors"
      "0 < length new_colors"
    by (auto dest: py_get_nat_Inr py_get_pred_Inr)
  from c have step: "contour_loop L new_colors mus sigmas xx yy ax (n # ns) =
      contour_loop L new_colors mus sigmas xx yy
        (draw_on ax (contour_cmd L new_colors mus sigmas xx yy n)) ns"
    by (simp add: py_get_nat py_get_pred Let_def contour_cmd_def)
  from Cons.IH [of "draw_on ax (contour_cmd L new_colors mus sigmas xx yy n)"] Cons.prems step
  show ?case
    by (simp add: draw_on_def)
qed

lemma plot_contours_Inr:
  assumes "plot_contours L ax est w mus sigmas xx yy = Inr ax'"
  shows "ax' = ax\<lparr>cmds := cmds ax @
            Contourf xx yy
              (reshape (map (\<lambda>x. score_fn_dpgmm L x est) (np_c (ravel xx) (ravel yy))) xx) #
            map (contour_cmd L (extend_colors (CSS4_COLORS_values L) (length mus)) mus sigmas xx yy)
              [0 ..< length mus]\<rparr>"
  using contour_loop_Inr [OF assms [unfolded plot_contours_def Let_def]]
  by (simp add: draw_on_def)

lemma upt_6: "[0 ..< 6] = [0, 1, 2, 3, 4, 5 :: nat]"
  by code_simp

lemma generate_y_eq:
  "generate_y = replicate 300 0 @ replicate 500 1 @ replicate 400 2 @ replicate 400 3 @
                replicate 400 4 @ replicate 300 5"
  by (simp add: generate_y_def n_components_def samples_def ones_def upt_6)

lemma count_list_replicate: "count_list (replicate n x) y = (if x = y then n else 0)"
  by (induction n) auto

lemma length_draw_blocks:
  "returns_size L \<Longrightarrow> map length (draw_blocks L g js) = map (\<lambda>j. samples ! j) js"
proof (induction js arbitrary: g)
  case Nil
  then show ?case by simp
next
  case (Cons j js)
  obtain B g' where d: "multivariate_normal L g (means ! j) (covars ! j) (samples ! j) = (B, g')"
    by (cases "multivariate_normal L g (means ! j) (covars ! j) (samples ! j)")
  from Cons.prems have "length (fst (multivariate_normal L g (means ! j) (covars ! j) (samples ! j)))
      = samples ! j"
    unfolding returns_size_def by blast
  with d Cons.IH [OF Cons.prems, of g'] show ?case by simp
qed

lemma draw_blocks_sources:
  "list_all2 (\<lambda>B j. \<exists>g. B = fst (multivariate_normal L g (means ! j) (covars ! j) (samples ! j)))
     (draw_blocks L g js) js"
proof (induction js arbitrary: g)
  case Nil
  then show ?case by simp
next
  case (Cons j js)
  obtain B g' where d: "multivariate_normal L g (means ! j) (covars ! j) (samples ! j) = (B, g')"
    by (cases "multivariate_normal L g (means ! j) (covars ! j) (samples ! j)")
  have "\<exists>g. B = fst (multivariate_normal L g (means ! j) (covars ! j) (samples ! j))"
    using d by (intro exI [of _ g]) simp
  with d Cons.IH [of g'] show ?case by simp
qed

lemma demo_returns_size: "returns_size demo_lib"
  by (simp add: returns_size_def demo_lib_def)

lemma may_draw_blocks_unique:
  assumes det: "\<forall>g m c n r1 r2. mvn_rel g m c n r1 \<longrightarrow> mvn_rel g m c n r2 \<longrightarrow> r1 = r2"
  shows "may_draw_blocks mvn_rel g js Bs1 \<Longrightarrow> may_draw_blocks mvn_rel g js Bs2 \<Longrightarrow> Bs1 = Bs2"
proof (induction arbitrary: Bs2 rule: may_draw_blocks.induct)
  case (draw_none g)
  then show ?case by (auto elim: may_draw_blocks.cases)
next
  case (draw_next g j B g' js Bs)
  from draw_next.prems obtain B2 g2 Bs' where
    b: "Bs2 = B2 # Bs'" "mvn_rel g (means ! j) (covars ! j) (samples ! j) (B2, g2)"
       "may_draw_blocks mvn_rel g2 js Bs'"
    by (auto elim: may_draw_blocks.cases)
  from det draw_next.hyps(1) b(2) have "(B, g') = (B2, g2)" by blast
  with draw_next.IH [of Bs'] b show ?case by simp
qed

lemma may_draw_blocks_fun:
  "may_draw_blocks (\<lambda>g m c n r. r = multivariate_normal L g m c n) g js (draw_blocks L g js)"
proof (induction js arbitrary: g)
  case Nil
  show ?case by (simp add: may_draw_blocks.draw_none)
next
  case (Cons j js)
  obtain B g' where d: "multivariate_normal L g (means ! j) (covars ! j) (samples ! j) = (B, g')"
    by (cases "multivariate_normal L g (means ! j) (covars ! j) (samples ! j)")
  from Cons [of g'] d show ?case
    by (auto intro: may_draw_blocks.draw_next)
qed

lemma may_generate_fun:
  "may_generate (\<lambda>s g. g = RandomState L s) (\<lambda>g m c n r. r = multivariate_normal L g m c n)
     random_state (generate_X L, generate_y)"
proof -
  have "may_generate (\<lambda>s g. g = RandomState L s) (\<lambda>g m c n r. r = multivariate_normal L g m c n)
     random_state
     (vstack (draw_blocks L (RandomState L random_state) [0 ..< n_components]), generate_y)"
    by (rule may_generate.generate_run [where rng = "RandomState L random_state"])
      (simp_all add: may_draw_blocks_fun)
  then show ?thesis
    by (simp add: generate_X_def Let_def)
qed

lemma mesh_step: "max ((4 - (- 4)) / 50) ((6 - (- 6)) / 50) = (6/25 :: real)"
  by simp

lemma arange_x: "arange (- 4) 4 (6/25) = map (\<lambda>j. - 4 + real j * (6/25)) [0 ..< 34]"
  by (simp add: arange_def)

lemma arange_y: "arange (- 6) 6 (6/25) = map (\<lambda>i. - 6 + real i * (6/25)) [0 ..< 50]"
  by (simp add: arange_def)

lemma the_mesh_explicit:
  "the_mesh =
     (replicate 50 (map (\<lambda>j. - 4 + real j * (6/25)) [0 ..< 34]),
      map (\<lambda>i. replicate 34 (- 6 + real i * (6/25))) [0 ..< 50])"
  unfolding the_mesh_def Let_def mesh_step arange_x arange_y meshgrid_def
  by (simp add: comp_def)

lemma same_shape_the_mesh: "same_shape (fst the_mesh) (snd the_mesh)"
  by (simp add: the_mesh_explicit same_shape_def list_all2_conv_all_nth)

lemma plot_results_contours:
  assumes "same_shape xx yy"
    and "plot_results L ax1 ax2 est xx yy = Inr (ax1', ax2')"
  shows "ax1' = ax1\<lparr>cmds := cmds ax1 @
       Contourf xx yy (grid_map2 (\<lambda>x. score_samples L est x) xx yy) #
       map (\<lambda>n. Contour xx yy
                  (grid_map2 (\<lambda>x. multivariate_normal_pdf L x (est_means est ! n)
                                     (est_covariances est ! n)) xx yy)
                  (let new_colors = extend_colors (CSS4_COLORS_values L) (length (est_means est))
                   in new_colors ! (if n = 0 then length new_colors - 1 else n - 1)))
         [0 ..< length (est_means est)]\<rparr>"
proof -
  from assms(1) have sh: "list_all2 (\<lambda>r s. length r = length s) xx yy"
    by (simp add: same_shape_def)
  from plot_results_Inr [OF assms(2)] have
    "plot_contours L ax1 est (est_weights est) (est_means est) (est_covariances est) xx yy
       = Inr ax1'"
    by simp
  from plot_contours_Inr [OF this] show ?thesis
    by (simp add: reshape_ravel [OF sh] contour_cmd_def score_fn_dpgmm_def score_fn_mvn_def
        Let_def)
qed

lemma init_plots_ax1:
  assumes "init_plots a1 a2 X y title c pt g = Inr (ax1, ax2, xx, yy)"
  shows "\<exists>cs. py_take colors y = Inr cs \<and>
     cmds ax1 = cmds a1 @ [SetTitle title c, Scatter X cs, SetXticks, SetYticks] @
                (if pt then [SetYlabel ''Estimated Mixtures''] else [])"
  using assms
  by (auto simp: init_plots_def Let_def draw_on_def split: sum.splits if_splits)

lemma grid_map2_const_the_mesh:
  "grid_map2 (\<lambda>x. c) (fst the_mesh) (snd the_mesh) = replicate 50 (replicate 34 c)"
  by (simp add: the_mesh_explicit grid_map2_def list_eq_iff_nth_eq map_replicate_const)

section \<open>Configuration\<close>

text \<open>
  C9.  The constants of the script: the seed of the data generator and of the estimator is 2,
  there are 6 true components and 3 * 6 = 18 estimator slots, the weight-concentration prior
  type is \<^verbatim>\<open>dirichlet_distribution\<close>, the mean-precision prior 0.8, the covariance
  regularisation 0, the initialisation random, the iteration cap per call 5, the tolerance
  1e-5, the negligible-weight threshold 0, the figure 14.1 by 8 (4.7 * 3 over the reals), and
  the one estimator of the script gets a subplot grid of 3 rows and 1 column.
\<close>

theorem configuration_constants:
  "random_state = 2 \<and>
   generate_X L = vstack (draw_blocks L (RandomState L 2) [0 ..< 6]) \<and>
   bgm_random_state estimator_params = 2 \<and>
   n_components = 6 \<and>
   bgm_n_components estimator_params = 18 \<and>
   weight_concentration_prior_type estimator_params = ''dirichlet_distribution'' \<and>
   mean_precision_prior estimator_params = 8 / 10 \<and>
   reg_covar estimator_params = 0 \<and>
   init_params estimator_params = ''random'' \<and>
   max_iter estimator_params = 5 \<and>
   tol estimator_params = 1 / 100000 \<and>
   SMALL_PROBS = 0 \<and>
   figsize = (141 / 10, 8) \<and>
   map (\<lambda>(title, est, concentrations_prior). (est, gridspec_shape concentrations_prior))
     (estimators L) = [(BayesianGaussianMixture L estimator_params, (3, 1))]"
  by (simp add: random_state_def generate_X_def estimator_params_def n_components_def
      SMALL_PROBS_def figsize_def estimators_def gridspec_shape_def)

section \<open>Colours of the component contours\<close>

text \<open>
  C5.  Evaluated against the claim that the extended colour list has a colour for each of
  \<open>m > 6\<close> components: whatever the colour table, the list \<^verbatim>\<open>plot_contours\<close> builds for
  \<open>m = 7 + d\<close> components has fewer than \<open>m\<close> entries (the slice stops at
  \<open>4 * (new_clusters - 1)\<close>, one colour short).
\<close>

theorem extend_colors_one_short: "length (extend_colors css (7 + d)) < 7 + d"
  by (simp add: length_extend_colors)

text \<open>
  C10.  With 18 means and covariances and a colour table of at least 41 entries (matplotlib's
  has 148), the colour list has 17 entries, fewer than there are components; every index
  \<open>n - 1\<close> for \<open>n\<close> in 0..17 is in range, component 0 reading the last entry (index -1);
  and \<^verbatim>\<open>plot_contours\<close> returns without raising, having drawn component \<open>n\<close> in the colour
  at index \<open>n - 1\<close>.
\<close>

theorem plot_contours_color_index_in_range:
  assumes "length mus = 18" and "length sigmas = 18" and "41 \<le> length (CSS4_COLORS_values L)"
  shows "length (extend_colors (CSS4_COLORS_values L) 18) = 17 \<and>
    length (extend_colors (CSS4_COLORS_values L) 18) < length mus \<and>
    (\<forall>n < 18. py_get (extend_colors (CSS4_COLORS_values L) 18) (int n - 1) =
        Inr (extend_colors (CSS4_COLORS_values L) 18 ! (if n = 0 then 16 else n - 1))) \<and>
    plot_contours L ax est w mus sigmas xx yy =
      Inr (ax\<lparr>cmds := cmds ax @
             Contourf xx yy
               (reshape (map (\<lambda>x. score_fn_dpgmm L x est) (np_c (ravel xx) (ravel yy))) xx) #
             map (contour_cmd L (extend_colors (CSS4_COLORS_values L) 18) mus sigmas xx yy)
               [0 ..< 18]\<rparr>)"
proof -
  let ?nc = "extend_colors (CSS4_COLORS_values L) 18"
  have len: "length ?nc = 17"
    using assms(3) by (rule length_extend_colors_18)
  have idx: "py_get ?nc (int n - 1) = Inr (?nc ! (if n = 0 then 16 else n - 1))" if "n < 18" for n
    using py_get_pred [of n ?nc] that len by simp
  have "plot_contours L ax est w mus sigmas xx yy =
      Inr (ax\<lparr>cmds := cmds ax @
             Contourf xx yy
               (reshape (map (\<lambda>x. score_fn_dpgmm L x est) (np_c (ravel xx) (ravel yy))) xx) #
             map (contour_cmd L (extend_colors (CSS4_COLORS_values L) (length mus)) mus sigmas xx yy)
               [0 ..< length mus]\<rparr>)"
    using assms by (intro plot_contours_ok) simp_all
  with len idx assms(1) show ?thesis by simp
qed

theorem plot_contours_color_index_in_range_witness:
  "length (replicate 18 (0 :: real, 0 :: real)) = 18 \<and>
   length (replicate 18 ((1 :: real, 0 :: real), (0 :: real, 1 :: real))) = 18 \<and>
   41 \<le> length (CSS4_COLORS_values demo_lib) \<and>
   length (extend_colors (CSS4_COLORS_values demo_lib) 18) = 17 \<and>
   py_get (extend_colors (CSS4_COLORS_values demo_lib) 18) (int 0 - 1) =
     Inr (extend_colors (CSS4_COLORS_values demo_lib) 18 ! 16) \<and>
   py_get (extend_colors (CSS4_COLORS_values demo_lib) 18) (int 17 - 1) =
     Inr (extend_colors (CSS4_COLORS_values demo_lib) 18 ! 16) \<and>
   plot_contours demo_lib new_axes (BayesianGaussianMixture demo_lib estimator_params) []
      (replicate 18 (0, 0)) (replicate 18 ((1, 0), (0, 1))) [[0]] [[0]] \<noteq> Inl IndexError"
proof -
  have a: "length (replicate 18 (0 :: real, 0 :: real)) = 18"
    by simp
  have b: "length (replicate 18 ((1 :: real, 0 :: real), (0 :: real, 1 :: real))) = 18"
    by simp
  have h: "41 \<le> length (CSS4_COLORS_values demo_lib)"
    by (simp add: demo_lib_def)
  note T = plot_contours_color_index_in_range [OF a b h]
  have first: "py_get (extend_colors (CSS4_COLORS_values demo_lib) 18) (int 0 - 1) =
     Inr (extend_colors (CSS4_COLORS_values demo_lib) 18 ! 16)"
    using T [THEN conjunct2, THEN conjunct2, THEN conjunct1, rule_format, of 0] by simp
  have last: "py_get (extend_colors (CSS4_COLORS_values demo_lib) 18) (int 17 - 1) =
     Inr (extend_colors (CSS4_COLORS_values demo_lib) 18 ! 16)"
    using T [THEN conjunct2, THEN conjunct2, THEN conjunct1, rule_format, of 17] by simp
  have len: "length (extend_colors (CSS4_COLORS_values demo_lib) 18) = 17"
    using T [THEN conjunct1] .
  have run: "plot_contours demo_lib new_axes (BayesianGaussianMixture demo_lib estimator_params) []
      (replicate 18 (0, 0)) (replicate 18 ((1, 0), (0, 1))) [[0]] [[0]] \<noteq> Inl IndexError"
    using plot_contours_color_index_in_range
      [where ax = new_axes and xx = "[[0]]" and yy = "[[0]]" and w = "[]"
         and est = "BayesianGaussianMixture demo_lib estimator_params",
       OF a b h, THEN conjunct2, THEN conjunct2, THEN conjunct2]
    by simp
  from a b h len first last run show ?thesis
    by (intro conjI)
qed

section \<open>Control flow of the renderer\<close>

text \<open>
  C4, as the script does it.  Every run of the script that ends performs, in this order:
  the raw-data plot (Init), a pause of 0.1 s and a prompt (Wait); the first fit, the redraw
  that builds the mesh (Fitted), a pause of 0.001 s and a prompt (Wait); then \<open>k\<close> times a
  further fit, a redraw (Fitted) and a pause of 0.001 s, with no prompt; then the print of the
  convergence flag, which is true, and a last prompt (Wait).  In phases: Init, Wait, Fitted,
  Wait, \<open>k\<close> times Fitted, Wait.  \<open>k\<close> is the number of iterations of the convergence loop,
  and the three prompts each consume one line of the console.
\<close>

theorem renderer_phases:
  assumes "main L inp = Some (Inr (inp', lg))"
  shows "\<exists>k. lg =
       [Figure (141/10) 8, GridSpec 3 1, InitPlots False, Pause (1/10), RawInput,
        Fit, Clear, Clear, InitPlots True, PlotResults (fst the_mesh) (snd the_mesh),
        Pause (1/1000), RawInput]
       @ concat (replicate k
           [Fit, Clear, Clear, InitPlots False, PlotResults (fst the_mesh) (snd the_mesh),
            Pause (1/1000)])
       @ [Print True, RawInput] \<and>
     phases lg = [Init, Wait, Fitted, Wait] @ replicate k Fitted @ [Wait] \<and>
     fits_then_converges L k \<and> Print True \<in> set lg \<and> last lg = RawInput \<and>
     length inp = length inp' + 3"
proof -
  from main_Some [OF assms] obtain k where
    k: "lg = script_log k" "3 \<le> length inp" "inp' = drop 3 inp" "fits_then_converges L k"
    by blast
  from k(1) have "lg =
       [Figure (141/10) 8, GridSpec 3 1, InitPlots False, Pause (1/10), RawInput,
        Fit, Clear, Clear, InitPlots True, PlotResults (fst the_mesh) (snd the_mesh),
        Pause (1/1000), RawInput]
       @ concat (replicate k
           [Fit, Clear, Clear, InitPlots False, PlotResults (fst the_mesh) (snd the_mesh),
            Pause (1/1000)])
       @ [Print True, RawInput]"
    by (simp add: script_log_def loop_events_def)
  moreover from k have "phases lg = [Init, Wait, Fitted, Wait] @ replicate k Fitted @ [Wait]"
    "Print True \<in> set lg" "last lg = RawInput" "length inp = length inp' + 3"
    by (simp_all add: phases_script_log last_script_log)
  ultimately show ?thesis
    using k(4) by (intro exI [of _ k] conjI)
qed

theorem renderer_phases_witness:
  "main demo_lib [''a'', ''b'', ''c''] = Some (Inr ([], script_log 2)) \<and>
   script_log 2 =
     [Figure (141/10) 8, GridSpec 3 1, InitPlots False, Pause (1/10), RawInput,
      Fit, Clear, Clear, InitPlots True, PlotResults (fst the_mesh) (snd the_mesh),
      Pause (1/1000), RawInput,
      Fit, Clear, Clear, InitPlots False, PlotResults (fst the_mesh) (snd the_mesh),
      Pause (1/1000),
      Fit, Clear, Clear, InitPlots False, PlotResults (fst the_mesh) (snd the_mesh),
      Pause (1/1000),
      Print True, RawInput] \<and>
   phases (script_log 2) = [Init, Wait, Fitted, Wait, Fitted, Fitted, Wait] \<and>
   fits_then_converges demo_lib 2"
proof -
  from renderer_phases [OF demo_main] obtain k where
    k: "script_log 2 =
       [Figure (141/10) 8, GridSpec 3 1, InitPlots False, Pause (1/10), RawInput,
        Fit, Clear, Clear, InitPlots True, PlotResults (fst the_mesh) (snd the_mesh),
        Pause (1/1000), RawInput]
       @ concat (replicate k
           [Fit, Clear, Clear, InitPlots False, PlotResults (fst the_mesh) (snd the_mesh),
            Pause (1/1000)])
       @ [Print True, RawInput]"
      "phases (script_log 2) = [Init, Wait, Fitted, Wait] @ replicate k Fitted @ [Wait]"
      "fits_then_converges demo_lib k"
    by blast
  from k(2) have "length (phases (script_log 2)) = k + 5" by simp
  then have "k = 2" by (simp add: phases_script_log)
  with k demo_main show ?thesis by (simp add: numeral_2_eq_2)
qed

text \<open>
  C4, as it is stated, fails: with an estimator that converges at its third fit, the second
  and the third Fitted render follow one another with no Wait in between (the loop of lines
  148-155 pauses for a millisecond but does not prompt).
\<close>

theorem fitted_renders_without_wait:
  "\<not> wait_between_fitted (phases (events_of (main demo_lib [''a'', ''b'', ''c''])))"
  by (simp add: demo_main events_of_def phases_script_log numeral_2_eq_2)

section \<open>The mesh\<close>



section \<open>The weight bar chart\<close>

text \<open>
  C6.  After every redraw, the first and those of the convergence loop, the bars of the
  chart are the weights of the estimator that are strictly greater than the threshold
  \<open>SMALL_PROBS = 0\<close>, in their order and at the positions 0, 1, 2, ...; each bar has a label
  at the same position carrying the weight times 100 (printed as a percentage); no weight at
  or below the threshold has a bar; the y-range is \<open>[0, 1.1]\<close>; and the estimator held
  after the redraw is the one \<^verbatim>\<open>fit\<close> returned, with all its slots.
\<close>

theorem weight_bar_chart:
  assumes "loop_body L X y title c pt st = Inr st' \<or> first_fit L X y title c pt st = Inr st'"
  shows "bars (cmds (st_ax2 st')) =
       enumerate_py (filter (\<lambda>w. 0 < w) (est_weights (st_estimator st'))) \<and>
     bar_labels (cmds (st_ax2 st')) =
       map (\<lambda>(k, w). (k, w + 7/1000, w * 100))
         (enumerate_py (filter (\<lambda>w. 0 < w) (est_weights (st_estimator st')))) \<and>
     ylim (st_ax2 st') = (0, 11/10) \<and>
     fit L (st_estimator st) X = Inr (st_estimator st') \<and>
     SMALL_PROBS = 0"
  using assms
proof
  assume "loop_body L X y title c pt st = Inr st'"
  then obtain est a1 a2 xx yy a1' a2' where
    f: "fit L (st_estimator st) X = Inr est" and
    ip: "init_plots (clear (st_ax1 st)) (clear (st_ax2 st)) X y title c pt False
           = Inr (a1, a2, xx, yy)" and
    pr: "plot_results L a1 a2 est (st_xx st) (st_yy st) = Inr (a1', a2')" and
    s: "st_estimator st' = est" "st_ax2 st' = a2'"
    by (auto simp: loop_body_def split: sum.splits prod.splits)
  from plot_results_Inr [OF pr] init_plots_chart_empty [OF ip] f s show ?thesis
    by (simp add: SMALL_PROBS_def)
next
  assume "first_fit L X y title c pt st = Inr st'"
  then obtain est a1 a2 xx yy a1' a2' where
    f: "fit L (st_estimator st) X = Inr est" and
    ip: "init_plots (clear (st_ax1 st)) (clear (st_ax2 st)) X y title c pt True
           = Inr (a1, a2, xx, yy)" and
    pr: "plot_results L a1 a2 est xx yy = Inr (a1', a2')" and
    ri: "raw_input
          (st\<lparr>st_estimator := est, st_ax1 := a1', st_ax2 := a2', st_xx := xx, st_yy := yy,
              st_log := st_log st @
                [Fit, Clear, Clear, InitPlots True, PlotResults xx yy, Pause (1/1000)]\<rparr>) = Inr st'"
    by (auto simp: first_fit_def split: sum.splits prod.splits)
  from plot_results_Inr [OF pr] init_plots_chart_empty [OF ip] f raw_input_Inr [OF ri]
  show ?thesis
    by (simp add: SMALL_PROBS_def)
qed

theorem weight_bar_chart_witness:
  "\<exists>st'. loop_body demo_lib [] generate_y ''t'' 1 True demo_state = Inr st' \<and>
     est_weights (st_estimator st') = [1/2, 1/4, 1/4] @ replicate 15 0 \<and>
     bars (cmds (st_ax2 st')) = [(0, 1/2), (1, 1/4), (2, 1/4)] \<and>
     bar_labels (cmds (st_ax2 st')) = [(0, 507/1000, 50), (1, 257/1000, 25), (2, 257/1000, 25)]"
proof -
  have f: "fit demo_lib (st_estimator demo_state) [] =
      demo_fit (BayesianGaussianMixture demo_lib estimator_params) []"
    by (simp add: demo_state_def demo_lib_def)
  then have "\<exists>e. fit demo_lib (st_estimator demo_state) [] = Inr e"
    by (simp add: demo_fit_def)
  then obtain e where "fit demo_lib (st_estimator demo_state) [] = Inr e" ..
  from loop_body_ok [OF demo_slots demo_css this] obtain st' where
    b: "loop_body demo_lib [] generate_y ''t'' 1 True demo_state = Inr st'"
    by blast
  note T = weight_bar_chart [OF disjI1, OF b]
  from T f have "st_estimator st' =
      projr (demo_fit (BayesianGaussianMixture demo_lib estimator_params) [])"
    by (metis sum.sel(2))
  then have w: "est_weights (st_estimator st') = [1/2, 1/4, 1/4] @ replicate 15 0"
    by (simp add: demo_fit_def)
  have e: "enumerate_py (filter (\<lambda>w. 0 < w) ([1/2, 1/4, 1/4] @ replicate 15 (0::real))) =
      [(0, 1/2), (1, 1/4), (2, 1/4)]"
    by (simp add: enumerate_py_def upt_rec [of 0] upt_rec [of 1] upt_rec [of 2] upt_rec [of 3])
  from T w e b show ?thesis
    by (intro exI [of _ st']) simp
qed

section \<open>Density contours\<close>

text \<open>
  C8.  On every redraw, the one after the first fit (\<open>first_fit\<close>) and each one of the
  convergence loop (\<open>loop_body\<close>, started on a mesh whose two grids have one shape), the first
  axes hold, after the scatter of the data that \<^verbatim>\<open>init_plots\<close> draws on the cleared axes, one
  filled contour whose array is the mixture score \<^verbatim>\<open>score_samples\<close> of the estimator just
  fitted at every point of the mesh, and for each component \<open>n\<close> of that estimator one contour
  whose array is the density of the component at every point of the mesh: the whole list of
  commands is computed anew from the current estimator and the mesh, nothing carried over.
  Scoring changes nothing else: the estimator held afterwards is exactly the one \<^verbatim>\<open>fit\<close>
  returned, the loop leaves the mesh and the console input as they were, and the first
  redraw holds the mesh just built.  (The two library scoring calls are functions of their
  arguments in this model; the script's \<open>score_fn_dpgmm\<close> and \<open>score_fn_mvn\<close> only return their
  values.)
\<close>

theorem redraws_cover_mesh:
  assumes "loop_body L X y title c pt st = Inr st' \<and> same_shape (st_xx st) (st_yy st) \<or>
           first_fit L X y title c pt st = Inr st'"
  shows "fit L (st_estimator st) X = Inr (st_estimator st') \<and>
     (loop_body L X y title c pt st = Inr st' \<longrightarrow>
        st_xx st' = st_xx st \<and> st_yy st' = st_yy st \<and> st_stdin st' = st_stdin st) \<and>
     (first_fit L X y title c pt st = Inr st' \<longrightarrow> (st_xx st', st_yy st') = the_mesh) \<and>
     same_shape (st_xx st') (st_yy st') \<and>
     (\<exists>cs. py_take colors y = Inr cs \<and>
        cmds (st_ax1 st') =
          [SetTitle title c, Scatter X cs, SetXticks, SetYticks] @
          (if pt then [SetYlabel ''Estimated Mixtures''] else []) @
          Contourf (st_xx st') (st_yy st')
            (grid_map2 (\<lambda>x. score_samples L (st_estimator st') x) (st_xx st') (st_yy st')) #
          map (\<lambda>n. Contour (st_xx st') (st_yy st')
                 (grid_map2 (\<lambda>x. multivariate_normal_pdf L x (est_means (st_estimator st') ! n)
                                   (est_covariances (st_estimator st') ! n))
                    (st_xx st') (st_yy st'))
                 (let new_colors = extend_colors (CSS4_COLORS_values L)
                                     (length (est_means (st_estimator st')))
                  in new_colors ! (if n = 0 then length new_colors - 1 else n - 1)))
            [0 ..< length (est_means (st_estimator st'))])"
proof -
  have keep: "loop_body L X y title c pt st = Inr st' \<longrightarrow>
        st_xx st' = st_xx st \<and> st_yy st' = st_yy st \<and> st_stdin st' = st_stdin st"
    by (auto dest: loop_body_Inr)
  have built: "first_fit L X y title c pt st = Inr st' \<longrightarrow> (st_xx st', st_yy st') = the_mesh"
    by (auto dest: first_fit_Inr)
  from assms show ?thesis
  proof
    assume a: "loop_body L X y title c pt st = Inr st' \<and> same_shape (st_xx st) (st_yy st)"
    then obtain est a1 a2 xx yy a1' a2' where
      f: "fit L (st_estimator st) X = Inr est" and
      ip: "init_plots (clear (st_ax1 st)) (clear (st_ax2 st)) X y title c pt False
             = Inr (a1, a2, xx, yy)" and
      pr: "plot_results L a1 a2 est (st_xx st) (st_yy st) = Inr (a1', a2')" and
      s: "st_estimator st' = est" "st_ax1 st' = a1'" "st_xx st' = st_xx st" "st_yy st' = st_yy st"
      by (auto simp: loop_body_def split: sum.splits prod.splits)
    from a have sh: "same_shape (st_xx st) (st_yy st)" ..
    from init_plots_ax1 [OF ip] obtain cs where
      cs: "py_take colors y = Inr cs"
        "cmds a1 = [SetTitle title c, Scatter X cs, SetXticks, SetYticks] @
                (if pt then [SetYlabel ''Estimated Mixtures''] else [])"
      by (auto simp: clear_def new_axes_def)
    from plot_results_contours [OF sh pr] cs f s sh keep built show ?thesis
      by (intro conjI exI [of _ cs]) simp_all
  next
    assume a: "first_fit L X y title c pt st = Inr st'"
    then obtain est a1 a2 xx yy a1' a2' where
      f: "fit L (st_estimator st) X = Inr est" and
      ip: "init_plots (clear (st_ax1 st)) (clear (st_ax2 st)) X y title c pt True
             = Inr (a1, a2, xx, yy)" and
      pr: "plot_results L a1 a2 est xx yy = Inr (a1', a2')" and
      ri: "raw_input
            (st\<lparr>st_estimator := est, st_ax1 := a1', st_ax2 := a2', st_xx := xx, st_yy := yy,
                st_log := st_log st @
                  [Fit, Clear, Clear, InitPlots True, PlotResults xx yy, Pause (1/1000)]\<rparr>) = Inr st'"
      by (auto simp: first_fit_def split: sum.splits prod.splits)
    from init_plots_Inr(1,2) [OF ip] have m: "xx = fst the_mesh" "yy = snd the_mesh"
      by simp_all
    with same_shape_the_mesh have sh: "same_shape xx yy" by simp
    from raw_input_Inr [OF ri] have
      s: "st_estimator st' = est" "st_ax1 st' = a1'" "st_xx st' = xx" "st_yy st' = yy"
      by simp_all
    from init_plots_ax1 [OF ip] obtain cs where
      cs: "py_take colors y = Inr cs"
        "cmds a1 = [SetTitle title c, Scatter X cs, SetXticks, SetYticks] @
                (if pt then [SetYlabel ''Estimated Mixtures''] else [])"
      by (auto simp: clear_def new_axes_def)
    from plot_results_contours [OF sh pr] cs f s sh keep built show ?thesis
      by (intro conjI exI [of _ cs]) simp_all
  qed
qed

theorem redraws_cover_mesh_witness:
  "\<exists>st'. first_fit demo_lib (generate_X demo_lib) generate_y ''t'' 1 True
            (demo_state\<lparr>st_stdin := [''a'']\<rparr>) = Inr st' \<and>
     (st_xx st', st_yy st') = the_mesh \<and>
     length (st_xx st') = 50 \<and> length (st_xx st' ! 0) = 34 \<and>
     length (cmds (st_ax1 st')) = 24 \<and>
     cmds (st_ax1 st') ! 5 =
       Contourf (fst the_mesh) (snd the_mesh) (replicate 50 (replicate 34 0)) \<and>
     cmds (st_ax1 st') ! 6 =
       Contour (fst the_mesh) (snd the_mesh) (replicate 50 (replicate 34 0)) ''#F0F8FF''"
proof -
  let ?st = "demo_state\<lparr>st_stdin := [''a'']\<rparr>"
  have f: "fit demo_lib (st_estimator ?st) (generate_X demo_lib) =
      demo_fit (BayesianGaussianMixture demo_lib estimator_params) (generate_X demo_lib)"
    by (simp add: demo_state_def demo_lib_def)
  then have "\<exists>e. fit demo_lib (st_estimator ?st) (generate_X demo_lib) = Inr e"
    by (simp add: demo_fit_def)
  then obtain e where fe: "fit demo_lib (st_estimator ?st) (generate_X demo_lib) = Inr e" ..
  have i: "st_stdin ?st \<noteq> []" by simp
  from first_fit_ok [OF demo_slots demo_css fe i] obtain st' where
    b: "first_fit demo_lib (generate_X demo_lib) generate_y ''t'' 1 True ?st = Inr st'"
    by blast
  note T = redraws_cover_mesh [OF disjI2, OF b]
  from T f have "st_estimator st' =
      projr (demo_fit (BayesianGaussianMixture demo_lib estimator_params) (generate_X demo_lib))"
    by (metis sum.sel(2))
  then have len: "length (est_means (st_estimator st')) = 18"
    by (simp add: demo_fit_def)
  from T b have m: "st_xx st' = fst the_mesh" "st_yy st' = snd the_mesh"
    by (auto simp: prod_eq_iff)
  have n16: "extend_colors (replicate 148 ''#F0F8FF'') 18 ! 16 = ''#F0F8FF''"
    by (simp add: extend_colors_def Let_def colors_def nth_append py_slice0_def)
  have ln: "length (extend_colors (replicate 148 ''#F0F8FF'') 18) = 17"
    by (simp add: length_extend_colors_18)
  have css: "CSS4_COLORS_values demo_lib = replicate 148 ''#F0F8FF''"
    "score_samples demo_lib = (\<lambda>e x. 0)" "multivariate_normal_pdf demo_lib = (\<lambda>x mean cov. 0)"
    by (simp_all add: demo_lib_def)
  from T obtain cs where
    c: "cmds (st_ax1 st') =
          [SetTitle ''t'' 1, Scatter (generate_X demo_lib) cs, SetXticks, SetYticks] @
          (if True then [SetYlabel ''Estimated Mixtures''] else []) @
          Contourf (st_xx st') (st_yy st')
            (grid_map2 (\<lambda>x. score_samples demo_lib (st_estimator st') x) (st_xx st') (st_yy st')) #
          map (\<lambda>n. Contour (st_xx st') (st_yy st')
                 (grid_map2 (\<lambda>x. multivariate_normal_pdf demo_lib x (est_means (st_estimator st') ! n)
                                   (est_covariances (st_estimator st') ! n))
                    (st_xx st') (st_yy st'))
                 (let new_colors = extend_colors (CSS4_COLORS_values demo_lib)
                                     (length (est_means (st_estimator st')))
                  in new_colors ! (if n = 0 then length new_colors - 1 else n - 1)))
            [0 ..< length (est_means (st_estimator st'))]"
    by blast
  have d: "length (cmds (st_ax1 st')) = 24 \<and>
     cmds (st_ax1 st') ! 5 =
       Contourf (fst the_mesh) (snd the_mesh) (replicate 50 (replicate 34 0)) \<and>
     cmds (st_ax1 st') ! 6 =
       Contour (fst the_mesh) (snd the_mesh) (replicate 50 (replicate 34 0)) ''#F0F8FF''"
    unfolding c
    by (simp add: len m css grid_map2_const_the_mesh n16 ln Let_def upt_rec [of 0])
  have sz: "length (fst the_mesh) = 50 \<and> length (fst the_mesh ! 0) = 34"
    by (simp add: the_mesh_explicit)
  from b m d sz show ?thesis
    by (intro exI [of _ st']) simp
qed

section \<open>The dataset\<close>

text \<open>
  C1.  Provided \<^verbatim>\<open>multivariate_normal(mean, cov, size)\<close> returns \<open>size\<close> rows (numpy's
  contract), the dataset has 2300 points and 2300 labels, the sum of the six sample counts
  300, 500, 400, 400, 400, 300; label \<open>j\<close> occurs exactly \<open>samples[j]\<close> times; the labels are
  300 zeros, then 500 ones, and so on; and the points are the six blocks in the same order,
  block \<open>j\<close> being the \<open>samples[j]\<close> rows drawn with the mean and covariance of component
  \<open>j\<close>.
\<close>

theorem dataset_size_and_order:
  assumes "returns_size L"
  shows "length (generate_X L) = 2300 \<and>
     length generate_y = 2300 \<and>
     sum_list samples = 2300 \<and>
     map (\<lambda>j. count_list generate_y (int j)) [0 ..< 6] = samples \<and>
     generate_y = replicate 300 0 @ replicate 500 1 @ replicate 400 2 @ replicate 400 3 @
                  replicate 400 4 @ replicate 300 5 \<and>
     generate_X L = concat (draw_blocks L (RandomState L 2) [0 ..< 6]) \<and>
     map length (draw_blocks L (RandomState L 2) [0 ..< 6]) = samples \<and>
     list_all2 (\<lambda>B j. \<exists>g. B = fst (multivariate_normal L g (means ! j) (covars ! j) (samples ! j)))
       (draw_blocks L (RandomState L 2) [0 ..< 6]) [0 ..< 6]"
proof -
  have X: "generate_X L = concat (draw_blocks L (RandomState L 2) [0 ..< 6])"
    by (simp add: generate_X_def vstack_def random_state_def n_components_def)
  have bl: "map length (draw_blocks L (RandomState L 2) [0 ..< 6]) = samples"
    unfolding length_draw_blocks [OF assms] by (simp add: upt_6 samples_def)
  have "length (generate_X L) = sum_list (map length (draw_blocks L (RandomState L 2) [0 ..< 6]))"
    unfolding X by (simp add: length_concat)
  then have lx: "length (generate_X L) = 2300"
    unfolding bl by (simp add: samples_def)
  have cnt: "map (\<lambda>j. count_list generate_y (int j)) [0 ..< 6] = samples"
    by (simp add: upt_6 generate_y_eq count_list_replicate samples_def)
  have ly: "length generate_y = 2300"
    by (simp add: generate_y_eq)
  have s: "sum_list samples = 2300"
    by (simp add: samples_def)
  from lx ly s cnt X bl draw_blocks_sources [of L "RandomState L 2" "[0 ..< 6]"] generate_y_eq
  show ?thesis by (intro conjI)
qed

theorem dataset_size_and_order_witness:
  "returns_size demo_lib \<and> length (generate_X demo_lib) = 2300 \<and> length generate_y = 2300 \<and>
   map length (draw_blocks demo_lib (RandomState demo_lib 2) [0 ..< 6]) =
     [300, 500, 400, 400, 400, 300] \<and>
   count_list generate_y 1 = 500"
proof -
  note T = dataset_size_and_order [OF demo_returns_size]
  from T have a: "length (generate_X demo_lib) = 2300" and b: "length generate_y = 2300"
    and c: "map length (draw_blocks demo_lib (RandomState demo_lib 2) [0 ..< 6]) = samples"
    and d: "map (\<lambda>j. count_list generate_y (int j)) [0 ..< 6] = samples"
    by blast+
  from d have e: "count_list generate_y 1 = 500"
    by (simp add: upt_6 samples_def)
  from demo_returns_size a b c [unfolded samples_def] e show ?thesis
    by (intro conjI)
qed

text \<open>
  C2.  Two runs of the data generator with the same seed yield the same dataset, points and
  labels in the same order, provided the library is deterministic: a \<^verbatim>\<open>RandomState\<close> is
  determined by its seed, and a draw by the generator state and its arguments.  The runs are
  taken over a library given as relations, so that nothing about two calls agreeing is
  built in; the generator of the script is one such run.
\<close>

theorem generator_deterministic:
  assumes "deterministic_lib seed_rel mvn_rel"
    and "may_generate seed_rel mvn_rel seed D1"
    and "may_generate seed_rel mvn_rel seed D2"
  shows "D1 = D2"
proof -
  from assms(1) have
    ds: "\<forall>s g1 g2. seed_rel s g1 \<longrightarrow> seed_rel s g2 \<longrightarrow> g1 = g2" and
    dm: "\<forall>g m c n r1 r2. mvn_rel g m c n r1 \<longrightarrow> mvn_rel g m c n r2 \<longrightarrow> r1 = r2"
    by (simp_all add: deterministic_lib_def)
  from assms(2) obtain g1 Bs1 where
    r1: "seed_rel seed g1" "may_draw_blocks mvn_rel g1 [0 ..< n_components] Bs1"
        "D1 = (vstack Bs1, generate_y)"
    by (auto elim: may_generate.cases)
  from assms(3) obtain g2 Bs2 where
    r2: "seed_rel seed g2" "may_draw_blocks mvn_rel g2 [0 ..< n_components] Bs2"
        "D2 = (vstack Bs2, generate_y)"
    by (auto elim: may_generate.cases)
  from ds r1(1) r2(1) have "g1 = g2" by blast
  with may_draw_blocks_unique [OF dm r1(2)] r2(2) have "Bs1 = Bs2" by simp
  with r1(3) r2(3) show ?thesis by simp
qed

theorem generator_deterministic_witness:
  "deterministic_lib (\<lambda>s g. g = RandomState demo_lib s)
     (\<lambda>g m c n r. r = multivariate_normal demo_lib g m c n) \<and>
   may_generate (\<lambda>s g. g = RandomState demo_lib s)
     (\<lambda>g m c n r. r = multivariate_normal demo_lib g m c n) random_state
     (generate_X demo_lib, generate_y) \<and>
   (generate_X demo_lib, generate_y) = (generate_X demo_lib, generate_y)"
proof -
  have d: "deterministic_lib (\<lambda>s g. g = RandomState demo_lib s)
     (\<lambda>g m c n r. r = multivariate_normal demo_lib g m c n)"
    by (simp add: deterministic_lib_def)
  note g = may_generate_fun [of demo_lib]
  from generator_deterministic [OF d g g] d g show ?thesis by (intro conjI)
qed

end
